theory Spec2Isabelle
  imports
    Main
    "HOL-Library.Char_ord"
    "HOL-Library.List_Lexorder"
    "HOL-Library.Multiset"
    "HOL-Library.Sublist"
begin

section \<open>Data model of \<^verbatim>\<open>src/libs/SidebarUtils.ts\<close>\<close>

text \<open>
  The sidebar utilities read snapshots of Onyx data and hand most questions about a report
  to other modules (\<^verbatim>\<open>ReportUtils\<close>, \<^verbatim>\<open>OptionsListUtils\<close>,
  \<^verbatim>\<open>ReportActionsUtils\<close>, \<^verbatim>\<open>DraftCommentUtils\<close>, \<^verbatim>\<open>Localize\<close>,
  \<^verbatim>\<open>LocaleCompare\<close>). Those modules, \<^verbatim>\<open>CONST\<close>, \<^verbatim>\<open>ONYXKEYS\<close> and the Onyx
  type declarations are not among the sources. The functions of the other modules
  are therefore parameters of the model (the record \<open>Collaborators\<close> below), the string
  enumerations of \<^verbatim>\<open>CONST\<close> are datatypes, and the payload types nothing here looks into
  are left abstract.

  A JavaScript string is a \<open>string\<close>, a list of characters with codes below 256, which
  covers the fixed-format timestamps; \<^verbatim>\<open><\<close> on strings is the lexicographic order on
  character codes. An optional field is an \<open>option\<close>, \<open>None\<close> standing for
  \<^verbatim>\<open>undefined\<close> and \<^verbatim>\<open>null\<close>. An object enumerated with \<^verbatim>\<open>Object.values\<close> is
  an association list in enumeration order.
\<close>

typedecl Beta
typedecl PolicySelector
typedecl Policy
typedecl TransactionViolation
typedecl ReportAction

type_synonym 'a OnyxCollection = "(string \<times> 'a option) list option"

type_synonym ReportActions = "(string \<times> ReportAction) list"

datatype PriorityMode = GSD | DEFAULT

datatype NotificationPreference = MUTE | DAILY | ALWAYS | HIDDEN

text \<open>
  \<^verbatim>\<open>CONST.BRICK_ROAD_INDICATOR_STATUS\<close> has the members \<^verbatim>\<open>ERROR\<close> and
  \<^verbatim>\<open>INFO\<close>; \<open>NO_INDICATOR\<close> is the empty string that \<^verbatim>\<open>getOptionData\<close>
  stores when there is nothing to show.
\<close>

datatype BrickRoadIndicator = ERROR | INFO | NO_INDICATOR

text \<open>
  Modelled from the spec: the declaration of \<^verbatim>\<open>OnyxCommon.Errors\<close> is missing. The
  spec speaks of errors that are or are not the "receipt scan failed" message, and the
  source reads an error with \<^verbatim>\<open>error?.[0]\<close>; an error value is therefore taken to be
  \<^verbatim>\<open>null\<close>, a message, or a tuple of strings headed by the message.
\<close>

datatype ErrorValue = ErrorNull | ErrorMessage string | ErrorTuple "string list"

type_synonym Errors = "(string \<times> ErrorValue) list"

record PersonalDetails =
  accountID :: "int option"
  login :: "string option"
  phoneNumber :: "string option"
  displayName :: "string option"
  pronouns :: "string option"

text \<open>The table of personal details, keyed by account identifier.\<close>

type_synonym PersonalDetailsList = "(int \<times> PersonalDetails option) list"

record DisplayNameWithTooltip =
  displayName :: "string option"
  login :: "string option"
  accountID :: "int option"
  pronouns :: "string option"

text \<open>
  The fields of \<^verbatim>\<open>ReportUtils.OptionData\<close> that the properties below read, with the
  fields that \<^verbatim>\<open>getOptionData\<close> fills from values already at hand. The preview
  line (\<^verbatim>\<open>alternateText\<close>), the icons, the subtitle, the search text, the tooltip
  text and the remaining copies of report fields are computed by further collaborators from
  the same inputs and are written to fields of their own; they are not part of the record.
\<close>

record OptionData =
  "text" :: string
  allReportErrors :: "Errors option"
  brickRoadIndicator :: "BrickRoadIndicator option"
  login :: "string option"
  accountID :: "int option"
  reportID :: "string option"
  phoneNumber :: "string option"
  isUnread :: "bool option"
  hasDraftComment :: bool
  keyForList :: "string option"
  isPinned :: "bool option"
  isChatRoom :: bool
  isArchivedRoom :: bool
  isPolicyExpenseChat :: bool
  parentReportAction :: "ReportAction option"
  parentReportID :: "string option"
  notificationPreference :: "NotificationPreference option"
  isSelfDM :: "bool option"
  participantsList :: "PersonalDetails option list option"
  displayNamesWithTooltips :: "DisplayNameWithTooltip list option"

text \<open>
  \<^verbatim>\<open>MiniReport\<close>, lines 60 to 64 of the source.
\<close>

record MiniReport =
  reportID :: "string option"
  displayName :: string
  lastVisibleActionCreated :: "string option"

text \<open>
  The fields of a report that \<^verbatim>\<open>SidebarUtils.ts\<close> reads itself. Everything else a
  report carries lives in the extension slot of the record and is visible to the
  collaborators only. \<open>hasErrorsOtherThanFailedReceipt\<close> is the optional field that
  \<^verbatim>\<open>getOrderedReportIDs\<close> adds to the reports it keeps because of their errors
  (\<^verbatim>\<open>ChatReportSelector & {hasErrorsOtherThanFailedReceipt?: boolean}\<close>).
\<close>

record Report =
  reportID :: "string option"
  parentReportID :: "string option"
  parentReportActionID :: "string option"
  notificationPreference :: "NotificationPreference option"
  isPinned :: "bool option"
  lastVisibleActionCreated :: "string option"
  lastActorAccountID :: "int option"
  hasErrorsOtherThanFailedReceipt :: "bool option"

text \<open>
  The functions of other modules that \<^verbatim>\<open>getOrderedReportIDs\<close> and
  \<^verbatim>\<open>getOptionData\<close> call, and the key prefix
  \<^verbatim>\<open>ONYXKEYS.COLLECTION.REPORT_ACTIONS\<close>. \<open>'r\<close> is the type of reports. The
  arguments are in the order of the call; \<open>shouldReportBeInOptionList\<close> takes the
  fields of its parameter object in the order the source writes them:
  \<^verbatim>\<open>report, currentReportId, isInFocusMode, betas, policies, excludeEmptyChats,
  doesReportHaveViolations, includeSelfDM\<close>.
\<close>

record 'r Collaborators =
  REPORT_ACTIONS :: string
  shouldShowViolations :: "'r \<Rightarrow> Beta list \<Rightarrow> TransactionViolation list OnyxCollection \<Rightarrow> bool"
  getAllReportErrors :: "'r \<Rightarrow> ReportActions option \<Rightarrow> Errors option"
  translateLocal :: "string \<Rightarrow> string"
  isOneTransactionThread :: "string option \<Rightarrow> string \<Rightarrow> bool"
  isSystemChat :: "'r \<Rightarrow> bool"
  shouldReportBeInOptionList ::
    "'r \<Rightarrow> string \<Rightarrow> bool \<Rightarrow> Beta list option \<Rightarrow> PolicySelector OnyxCollection
      \<Rightarrow> bool \<Rightarrow> bool \<Rightarrow> bool \<Rightarrow> bool"
  doesReportBelongToWorkspace :: "'r \<Rightarrow> int list \<Rightarrow> string \<Rightarrow> bool"
  getReportName :: "'r \<Rightarrow> Policy option \<Rightarrow> string"
  getReportAction :: "string \<Rightarrow> string \<Rightarrow> ReportAction option"
  requiresAttentionFromCurrentUser :: "'r \<Rightarrow> ReportAction option \<Rightarrow> bool"
  hasValidDraftComment :: "string \<Rightarrow> bool"
  isArchivedRoom :: "'r \<Rightarrow> bool"
  localeCompare :: "string \<Rightarrow> string \<Rightarrow> int"
  getParticipantsAccountIDsForDisplay :: "'r \<Rightarrow> bool option \<Rightarrow> int list"
  getPersonalDetailsForAccountIDs :: "int list \<Rightarrow> PersonalDetailsList \<Rightarrow> PersonalDetailsList"
  isChatRoom :: "'r \<Rightarrow> bool"
  isPolicyExpenseChat :: "'r \<Rightarrow> bool"
  isExpenseReport :: "'r \<Rightarrow> bool"
  isSelfDM :: "'r \<Rightarrow> bool"
  isUnread :: "'r \<Rightarrow> bool"
  isJoinRequestInAdminRoom :: "'r \<Rightarrow> bool"
  getDisplayNamesWithTooltips ::
    "PersonalDetails option list \<Rightarrow> bool \<Rightarrow> bool option \<Rightarrow> bool
      \<Rightarrow> DisplayNameWithTooltip list"

section \<open>JavaScript primitives\<close>

text \<open>\<^verbatim>\<open>a ?? d\<close>.\<close>

definition orElse :: "'a option \<Rightarrow> 'a \<Rightarrow> 'a" where
  "orElse a d = (case a of None \<Rightarrow> d | Some v \<Rightarrow> v)"

text \<open>Truthiness of an optional boolean, an optional string and an optional number.\<close>

definition truthyBool :: "bool option \<Rightarrow> bool" where
  "truthyBool b = (case b of None \<Rightarrow> False | Some v \<Rightarrow> v)"

definition truthyString :: "string option \<Rightarrow> bool" where
  "truthyString s = (case s of None \<Rightarrow> False | Some v \<Rightarrow> v \<noteq> [])"

definition truthyNumber :: "int option \<Rightarrow> bool" where
  "truthyNumber n = (case n of None \<Rightarrow> False | Some v \<Rightarrow> v \<noteq> 0)"

text \<open>
  \<^verbatim>\<open>report.reportID === currentReportId\<close>: the left side is a string or
  \<^verbatim>\<open>undefined\<close>, the right side a string or \<^verbatim>\<open>null\<close>, so two absent values are
  not equal.
\<close>

definition strictEquals :: "string option \<Rightarrow> string option \<Rightarrow> bool" where
  "strictEquals a b = (case a of None \<Rightarrow> False | Some x \<Rightarrow> (case b of None \<Rightarrow> False | Some y \<Rightarrow> x = y))"

text \<open>\<^verbatim>\<open>Object.values(collection ?? {})\<close>.\<close>

definition objectValues :: "'a OnyxCollection \<Rightarrow> 'a option list" where
  "objectValues collection = (case collection of None \<Rightarrow> [] | Some entries \<Rightarrow> map snd entries)"

text \<open>A template literal prints an absent value as \<^verbatim>\<open>undefined\<close>.\<close>

definition templateString :: "string option \<Rightarrow> string" where
  "templateString s = (case s of None \<Rightarrow> ''undefined'' | Some v \<Rightarrow> v)"

text \<open>\<^verbatim>\<open>collection?.[key]\<close>.\<close>

definition lookupEntry :: "'a OnyxCollection \<Rightarrow> string \<Rightarrow> 'a option" where
  "lookupEntry collection key =
     (case collection of
        None \<Rightarrow> None
      | Some entries \<Rightarrow> (case map_of entries key of None \<Rightarrow> None | Some v \<Rightarrow> v))"

text \<open>\<^verbatim>\<open>error?.[0]\<close>: the first character of a message, the first component of a tuple.\<close>

definition indexZero :: "ErrorValue \<Rightarrow> string option" where
  "indexZero error =
     (case error of
        ErrorNull \<Rightarrow> None
      | ErrorMessage m \<Rightarrow> (case m of [] \<Rightarrow> None | ch # _ \<Rightarrow> Some [ch])
      | ErrorTuple t \<Rightarrow> (case t of [] \<Rightarrow> None | m # _ \<Rightarrow> Some m))"

text \<open>
  \<^verbatim>\<open>Array.prototype.sort(compareFn)\<close>. ECMAScript asks for a stable sort and fixes its
  result when \<^verbatim>\<open>compareFn\<close> is a consistent comparator; otherwise the order is left to
  the engine. The model is the stable insertion sort: the elements are taken from left to
  right, and each one is put in front of the first element it is smaller than.
\<close>

fun insertSorted :: "('a \<Rightarrow> 'a \<Rightarrow> int) \<Rightarrow> 'a \<Rightarrow> 'a list \<Rightarrow> 'a list" where
  "insertSorted compareFn x [] = [x]"
| "insertSorted compareFn x (y # ys) =
     (if compareFn x y < 0 then x # y # ys else y # insertSorted compareFn x ys)"

definition arraySort :: "('a \<Rightarrow> 'a \<Rightarrow> int) \<Rightarrow> 'a list \<Rightarrow> 'a list" where
  "arraySort compareFn xs = foldl (\<lambda>sorted x. insertSorted compareFn x sorted) [] xs"

section \<open>\<^verbatim>\<open>getOrderedReportIDs\<close>\<close>

text \<open>\<^verbatim>\<open>compareStringDates\<close>, lines 46 to 54.\<close>

definition compareStringDates :: "string \<Rightarrow> string \<Rightarrow> int" where
  "compareStringDates a b = (if a < b then - 1 else if a > b then 1 else 0)"

text \<open>
  The body of the first \<^verbatim>\<open>forEach\<close>, lines 86 to 127: one entry of the collection is
  looked at and the list of reports to display is returned, with the report pushed at its
  end or unchanged.
\<close>

definition filterReport ::
  "('a Report_scheme) Collaborators \<Rightarrow> string option \<Rightarrow> Beta list option
    \<Rightarrow> PolicySelector OnyxCollection \<Rightarrow> bool \<Rightarrow> ReportActions OnyxCollection
    \<Rightarrow> TransactionViolation list OnyxCollection
    \<Rightarrow> 'a Report_scheme list \<Rightarrow> 'a Report_scheme option \<Rightarrow> 'a Report_scheme list" where
  "filterReport c currentReportId betas policies isInFocusMode allReportActions
      transactionViolations reportsToDisplay entry =
     (case entry of
        None \<Rightarrow> reportsToDisplay
      | Some report \<Rightarrow>
          (let reportActions =
                 orElse (lookupEntry allReportActions
                           (REPORT_ACTIONS c @ templateString (Report.reportID report))) [];
               doesReportHaveViolations =
                 shouldShowViolations c report (orElse betas []) transactionViolations;
               isHidden = (notificationPreference report = Some HIDDEN);
               isFocused = strictEquals (Report.reportID report) currentReportId;
               allReportErrors = orElse (getAllReportErrors c report (Some reportActions)) [];
               hasErrorsOtherThanFailedReceipt =
                 (doesReportHaveViolations \<or>
                  list_ex (\<lambda>error. indexZero error
                             \<noteq> Some (translateLocal c ''iou.error.genericSmartscanFailureMessage''))
                    (map snd allReportErrors))
           in if isOneTransactionThread c (Report.reportID report)
                   (orElse (parentReportID report) ''0'')
              then reportsToDisplay
              else if hasErrorsOtherThanFailedReceipt
              then reportsToDisplay @ [report\<lparr>hasErrorsOtherThanFailedReceipt := Some True\<rparr>]
              else
                (let isSystemChat = isSystemChat c report;
                     shouldOverrideHidden =
                       (hasErrorsOtherThanFailedReceipt \<or> isFocused \<or> isSystemChat
                        \<or> truthyBool (Report.isPinned report))
                 in if isHidden \<and> \<not> shouldOverrideHidden
                    then reportsToDisplay
                    else if shouldReportBeInOptionList c report (orElse currentReportId ''-1'')
                              isInFocusMode betas policies True doesReportHaveViolations True
                    then reportsToDisplay @ [report]
                    else reportsToDisplay)))"

text \<open>
  Lines 82 to 127 and 145 to 149: the reports to display, after the workspace filter.
  \<open>currentPolicyID\<close> and \<open>policyMemberAccountIDs\<close> are the values of the parameters,
  defaults applied.
\<close>

definition reportsToDisplay ::
  "('a Report_scheme) Collaborators \<Rightarrow> string option \<Rightarrow> 'a Report_scheme OnyxCollection
    \<Rightarrow> Beta list option \<Rightarrow> PolicySelector OnyxCollection \<Rightarrow> bool
    \<Rightarrow> ReportActions OnyxCollection \<Rightarrow> TransactionViolation list OnyxCollection
    \<Rightarrow> string \<Rightarrow> int list \<Rightarrow> 'a Report_scheme list" where
  "reportsToDisplay c currentReportId allReports betas policies isInFocusMode allReportActions
      transactionViolations currentPolicyID policyMemberAccountIDs =
     (let allReportsDictValues = objectValues allReports;
          displayed =
            foldl (filterReport c currentReportId betas policies isInFocusMode allReportActions
                     transactionViolations) [] allReportsDictValues
      in if currentPolicyID \<noteq> [] \<or> length policyMemberAccountIDs > 0
         then filter (\<lambda>report. strictEquals (Report.reportID report) currentReportId
                        \<or> doesReportBelongToWorkspace c report policyMemberAccountIDs
                            currentPolicyID) displayed
         else displayed)"

text \<open>The five arrays of lines 139 to 143.\<close>

record Buckets =
  pinnedAndGBRReports :: "MiniReport list"
  draftReports :: "MiniReport list"
  nonArchivedReports :: "MiniReport list"
  archivedReports :: "MiniReport list"
  errorReports :: "MiniReport list"

definition emptyBuckets :: Buckets where
  "emptyBuckets = \<lparr>pinnedAndGBRReports = [], draftReports = [], nonArchivedReports = [],
                    archivedReports = [], errorReports = []\<rparr>"

text \<open>Lines 153 to 157.\<close>

definition toMiniReport :: "('a Report_scheme) Collaborators \<Rightarrow> 'a Report_scheme \<Rightarrow> MiniReport" where
  "toMiniReport c report =
     \<lparr>MiniReport.reportID = Report.reportID report,
      MiniReport.displayName = getReportName c report None,
      MiniReport.lastVisibleActionCreated = Report.lastVisibleActionCreated report\<rparr>"

text \<open>The body of the second \<^verbatim>\<open>forEach\<close>, lines 151 to 172.\<close>

definition bucketReport ::
  "('a Report_scheme) Collaborators \<Rightarrow> Buckets \<Rightarrow> 'a Report_scheme \<Rightarrow> Buckets" where
  "bucketReport c b report =
     (let miniReport = toMiniReport c report;
          isPinned = orElse (Report.isPinned report) False;
          reportAction = getReportAction c (orElse (parentReportID report) ''-1'')
                           (orElse (parentReportActionID report) ''-1'')
      in if isPinned \<or> requiresAttentionFromCurrentUser c report reportAction
         then b\<lparr>pinnedAndGBRReports := pinnedAndGBRReports b @ [miniReport]\<rparr>
         else if hasValidDraftComment c (orElse (Report.reportID report) ''-1'')
         then b\<lparr>draftReports := draftReports b @ [miniReport]\<rparr>
         else if isArchivedRoom c report
         then b\<lparr>archivedReports := archivedReports b @ [miniReport]\<rparr>
         else if truthyBool (hasErrorsOtherThanFailedReceipt report)
         then b\<lparr>errorReports := errorReports b @ [miniReport]\<rparr>
         else b\<lparr>nonArchivedReports := nonArchivedReports b @ [miniReport]\<rparr>)"

definition partitionReports ::
  "('a Report_scheme) Collaborators \<Rightarrow> 'a Report_scheme list \<Rightarrow> Buckets" where
  "partitionReports c reports = foldl (bucketReport c) emptyBuckets reports"

text \<open>The comparators of lines 175 to 192.\<close>

definition compareDisplayNames :: "(string \<Rightarrow> string \<Rightarrow> int) \<Rightarrow> MiniReport \<Rightarrow> MiniReport \<Rightarrow> int" where
  "compareDisplayNames collate a b =
     (if MiniReport.displayName a \<noteq> [] \<and> MiniReport.displayName b \<noteq> []
      then collate (MiniReport.displayName a) (MiniReport.displayName b) else 0)"

definition compareLastVisibleActionCreated :: "MiniReport \<Rightarrow> MiniReport \<Rightarrow> int" where
  "compareLastVisibleActionCreated a b =
     (if truthyString (MiniReport.lastVisibleActionCreated a)
         \<and> truthyString (MiniReport.lastVisibleActionCreated b)
      then compareStringDates (orElse (MiniReport.lastVisibleActionCreated b) [])
             (orElse (MiniReport.lastVisibleActionCreated a) [])
      else 0)"

definition compareNonArchivedDefault ::
  "(string \<Rightarrow> string \<Rightarrow> int) \<Rightarrow> MiniReport \<Rightarrow> MiniReport \<Rightarrow> int" where
  "compareNonArchivedDefault collate a b =
     (let compareDates = compareLastVisibleActionCreated a b
      in if compareDates \<noteq> 0 then compareDates
         else compareDisplayNames collate a b)"

text \<open>Lines 175 to 193: every array is sorted in place.\<close>

definition sortBuckets :: "(string \<Rightarrow> string \<Rightarrow> int) \<Rightarrow> bool \<Rightarrow> Buckets \<Rightarrow> Buckets" where
  "sortBuckets collate isInDefaultMode b =
     (let pinned = arraySort (compareDisplayNames collate) (pinnedAndGBRReports b);
          errors = arraySort (compareDisplayNames collate) (errorReports b);
          drafts = arraySort (compareDisplayNames collate) (draftReports b)
      in if isInDefaultMode
         then \<lparr>pinnedAndGBRReports = pinned, draftReports = drafts,
               nonArchivedReports =
                 arraySort (compareNonArchivedDefault collate) (nonArchivedReports b),
               archivedReports = arraySort compareLastVisibleActionCreated (archivedReports b),
               errorReports = errors\<rparr>
         else \<lparr>pinnedAndGBRReports = pinned, draftReports = drafts,
               nonArchivedReports =
                 arraySort (compareDisplayNames collate) (nonArchivedReports b),
               archivedReports =
                 arraySort (compareDisplayNames collate) (archivedReports b),
               errorReports = errors\<rparr>)"

text \<open>Line 198.\<close>

definition flattenBuckets :: "Buckets \<Rightarrow> string list" where
  "flattenBuckets b =
     map (\<lambda>report. orElse (MiniReport.reportID report) ''-1'')
       (pinnedAndGBRReports b @ errorReports b @ draftReports b @ nonArchivedReports b
        @ archivedReports b)"

text \<open>
  The buckets as they are when they are flattened, and the function itself. The last two
  parameters are optional in the source (\<^verbatim>\<open>currentPolicyID = ''\<close>,
  \<^verbatim>\<open>policyMemberAccountIDs = []\<close>): \<open>None\<close> is the argument left out.
\<close>

definition sortedBuckets ::
  "('a Report_scheme) Collaborators \<Rightarrow> string option \<Rightarrow> 'a Report_scheme OnyxCollection
    \<Rightarrow> Beta list option \<Rightarrow> PolicySelector OnyxCollection \<Rightarrow> PriorityMode option
    \<Rightarrow> ReportActions OnyxCollection \<Rightarrow> TransactionViolation list OnyxCollection
    \<Rightarrow> string option \<Rightarrow> int list option \<Rightarrow> Buckets" where
  "sortedBuckets c currentReportId allReports betas policies priorityMode allReportActions
      transactionViolations currentPolicyID policyMemberAccountIDs =
     (let isInFocusMode = (priorityMode = Some GSD);
          isInDefaultMode = (\<not> isInFocusMode)
      in sortBuckets (localeCompare c) isInDefaultMode
           (partitionReports c
              (reportsToDisplay c currentReportId allReports betas policies isInFocusMode
                 allReportActions transactionViolations (orElse currentPolicyID [])
                 (orElse policyMemberAccountIDs []))))"

definition getOrderedReportIDs ::
  "('a Report_scheme) Collaborators \<Rightarrow> string option \<Rightarrow> 'a Report_scheme OnyxCollection
    \<Rightarrow> Beta list option \<Rightarrow> PolicySelector OnyxCollection \<Rightarrow> PriorityMode option
    \<Rightarrow> ReportActions OnyxCollection \<Rightarrow> TransactionViolation list OnyxCollection
    \<Rightarrow> string option \<Rightarrow> int list option \<Rightarrow> string list" where
  "getOrderedReportIDs c currentReportId allReports betas policies priorityMode allReportActions
      transactionViolations currentPolicyID policyMemberAccountIDs =
     flattenBuckets
       (sortedBuckets c currentReportId allReports betas policies priorityMode allReportActions
          transactionViolations currentPolicyID policyMemberAccountIDs)"

section \<open>\<^verbatim>\<open>getOptionData\<close>\<close>

text \<open>\<^verbatim>\<open>participantPersonalDetailList[0] ?? {}\<close>.\<close>

definition emptyPersonalDetails :: PersonalDetails where
  "emptyPersonalDetails =
     \<lparr>PersonalDetails.accountID = None, PersonalDetails.login = None,
      PersonalDetails.phoneNumber = None, PersonalDetails.displayName = None,
      PersonalDetails.pronouns = None\<rparr>"

definition firstOrEmpty :: "PersonalDetails option list \<Rightarrow> PersonalDetails" where
  "firstOrEmpty details =
     (case details of [] \<Rightarrow> emptyPersonalDetails | d # _ \<Rightarrow> orElse d emptyPersonalDetails)"

text \<open>
  Lines 206 to 458. The record is built with its initial values (lines 230 to 260) and
  updated in the order of the assignments. The last-actor lookup and the preview line of
  lines 321 to 426 assign \<^verbatim>\<open>alternateText\<close> only and read the process-wide index
  \<^verbatim>\<open>visibleReportActionItems\<close>; they leave the fields below untouched.
\<close>

definition getOptionData ::
  "('a Report_scheme) Collaborators \<Rightarrow> 'a Report_scheme option \<Rightarrow> ReportActions option
    \<Rightarrow> PersonalDetailsList option \<Rightarrow> string \<Rightarrow> Policy option \<Rightarrow> ReportAction option
    \<Rightarrow> bool \<Rightarrow> OptionData option" where
  "getOptionData c report reportActions personalDetails preferredLocale policy parentAction
      hasViolations =
     (case report of
        None \<Rightarrow> None
      | Some report \<Rightarrow>
     (case personalDetails of
        None \<Rightarrow> None
      | Some personalDetails \<Rightarrow>
          (let result =
                 \<lparr>text = [],
                  allReportErrors = getAllReportErrors c report reportActions,
                  brickRoadIndicator = None,
                  OptionData.login = None,
                  OptionData.accountID = None,
                  OptionData.reportID = Some [],
                  OptionData.phoneNumber = None,
                  OptionData.isUnread = None,
                  hasDraftComment = False,
                  keyForList = None,
                  OptionData.isPinned = Some False,
                  OptionData.isChatRoom = False,
                  OptionData.isArchivedRoom = False,
                  OptionData.isPolicyExpenseChat = False,
                  parentReportAction = None,
                  OptionData.parentReportID = None,
                  OptionData.notificationPreference = None,
                  OptionData.isSelfDM = None,
                  participantsList = None,
                  displayNamesWithTooltips = None\<rparr>;
               participantAccountIDs = getParticipantsAccountIDsForDisplay c report None;
               participantPersonalDetailList =
                 map snd (getPersonalDetailsForAccountIDs c participantAccountIDs personalDetails);
               personalDetail = firstOrEmpty participantPersonalDetailList;
               hasErrors = (orElse (allReportErrors result) [] \<noteq> []);
               result = result\<lparr>OptionData.isChatRoom := isChatRoom c report\<rparr>;
               result = result\<lparr>parentReportAction := parentAction\<rparr>;
               result = result\<lparr>OptionData.isArchivedRoom := isArchivedRoom c report\<rparr>;
               result = result\<lparr>OptionData.isPolicyExpenseChat := isPolicyExpenseChat c report\<rparr>;
               result = result\<lparr>brickRoadIndicator :=
                          Some (if hasErrors \<or> hasViolations then ERROR else NO_INDICATOR)\<rparr>;
               result = result\<lparr>OptionData.reportID := Report.reportID report\<rparr>;
               result = result\<lparr>OptionData.isUnread :=
                          Some (isUnread c report \<and> truthyNumber (lastActorAccountID report))\<rparr>;
               result = result\<lparr>OptionData.isPinned := Report.isPinned report\<rparr>;
               result = result\<lparr>keyForList := Some (templateString (Report.reportID report))\<rparr>;
               result = result\<lparr>OptionData.parentReportID :=
                          Some (orElse (Report.parentReportID report) ''-1'')\<rparr>;
               result = result\<lparr>OptionData.notificationPreference :=
                          Report.notificationPreference report\<rparr>;
               result = result\<lparr>OptionData.isSelfDM := Some (isSelfDM c report)\<rparr>;
               hasMultipleParticipants =
                 (length participantPersonalDetailList > 1 \<or> OptionData.isChatRoom result
                  \<or> OptionData.isPolicyExpenseChat result \<or> isExpenseReport c report);
               displayNamesWithTooltips =
                 getDisplayNamesWithTooltips c (take 10 participantPersonalDetailList)
                   hasMultipleParticipants None (isSelfDM c report);
               result =
                 (if isJoinRequestInAdminRoom c report
                  then result\<lparr>OptionData.isPinned := Some True, OptionData.isUnread := Some True,
                         brickRoadIndicator := Some INFO\<rparr>
                  else result);
               result =
                 (if \<not> hasMultipleParticipants
                  then result\<lparr>OptionData.accountID := PersonalDetails.accountID personalDetail,
                         OptionData.login := PersonalDetails.login personalDetail,
                         OptionData.phoneNumber := PersonalDetails.phoneNumber personalDetail\<rparr>
                  else result);
               reportName = getReportName c report policy;
               result = result\<lparr>text := reportName\<rparr>;
               result = result\<lparr>participantsList := Some participantPersonalDetailList\<rparr>;
               result = result\<lparr>displayNamesWithTooltips := Some displayNamesWithTooltips\<rparr>
           in Some result)))"

section \<open>Notions used to state the properties\<close>

text \<open>
  The five buckets and the rule that assigns a report to one of them, as the specification
  words it: pinned or requiring attention, else an unresolved draft comment, else
  archived, else the forced-visible error flag, else default.
\<close>

datatype Bucket = PinnedGBR | Drafts | Archived | Errors | Default

definition specBucket :: "('a Report_scheme) Collaborators \<Rightarrow> 'a Report_scheme \<Rightarrow> Bucket" where
  "specBucket c report =
     (if truthyBool (Report.isPinned report)
         \<or> requiresAttentionFromCurrentUser c report
              (getReportAction c (orElse (Report.parentReportID report) ''-1'')
                 (orElse (parentReportActionID report) ''-1''))
      then PinnedGBR
      else if hasValidDraftComment c (orElse (Report.reportID report) ''-1'') then Drafts
      else if isArchivedRoom c report then Archived
      else if truthyBool (hasErrorsOtherThanFailedReceipt report) then Errors
      else Default)"

fun bucketContents :: "Buckets \<Rightarrow> Bucket \<Rightarrow> MiniReport list" where
  "bucketContents b PinnedGBR = pinnedAndGBRReports b"
| "bucketContents b Drafts = draftReports b"
| "bucketContents b Archived = archivedReports b"
| "bucketContents b Errors = errorReports b"
| "bucketContents b Default = nonArchivedReports b"

text \<open>The reports of a collection, and the identifier a report is listed under.\<close>

definition presentReports :: "'a OnyxCollection \<Rightarrow> 'a list" where
  "presentReports collection =
     concat (map (\<lambda>entry. case entry of None \<Rightarrow> [] | Some report \<Rightarrow> [report])
               (objectValues collection))"

definition reportIDOrSentinel :: "'a Report_scheme \<Rightarrow> string" where
  "reportIDOrSentinel report = orElse (Report.reportID report) ''-1''"

definition miniReportIDOrSentinel :: "MiniReport \<Rightarrow> string" where
  "miniReportIDOrSentinel report = orElse (MiniReport.reportID report) ''-1''"

text \<open>
  A report has an error other than the failed receipt scan when some value of its error
  object differs from the translated message; and the value of the local
  \<^verbatim>\<open>hasErrorsOtherThanFailedReceipt\<close> of lines 90 to 96 for a report of the collection.
\<close>

definition hasErrorOtherThanFailedReceipt :: "'r Collaborators \<Rightarrow> Errors \<Rightarrow> bool" where
  "hasErrorOtherThanFailedReceipt c errors =
     list_ex (\<lambda>error. indexZero error
                \<noteq> Some (translateLocal c ''iou.error.genericSmartscanFailureMessage''))
       (map snd errors)"

definition errorFlagOf ::
  "('a Report_scheme) Collaborators \<Rightarrow> Beta list option \<Rightarrow> ReportActions OnyxCollection
    \<Rightarrow> TransactionViolation list OnyxCollection \<Rightarrow> 'a Report_scheme \<Rightarrow> bool" where
  "errorFlagOf c betas allReportActions transactionViolations report =
     (shouldShowViolations c report (orElse betas []) transactionViolations
      \<or> hasErrorOtherThanFailedReceipt c
           (orElse (getAllReportErrors c report
                      (Some (orElse (lookupEntry allReportActions
                                       (REPORT_ACTIONS c @ templateString (Report.reportID report)))
                               []))) []))"

text \<open>The report as it is pushed to the list of reports to display.\<close>

definition keptCopy ::
  "('a Report_scheme) Collaborators \<Rightarrow> Beta list option \<Rightarrow> ReportActions OnyxCollection
    \<Rightarrow> TransactionViolation list OnyxCollection \<Rightarrow> 'a Report_scheme \<Rightarrow> 'a Report_scheme" where
  "keptCopy c betas allReportActions transactionViolations report =
     (if errorFlagOf c betas allReportActions transactionViolations report
      then report\<lparr>hasErrorsOtherThanFailedReceipt := Some True\<rparr> else report)"

text \<open>
  Orders on the staged reports: by timestamp, most recent first, and by timestamp with
  ties broken by the collation of the display names. A collation is consistent when
  swapping its arguments swaps the sign of its result and "not after" is transitive.
\<close>

definition hasTimestamp :: "MiniReport \<Rightarrow> bool" where
  "hasTimestamp report = truthyString (MiniReport.lastVisibleActionCreated report)"

definition timestampOf :: "MiniReport \<Rightarrow> string" where
  "timestampOf report = orElse (MiniReport.lastVisibleActionCreated report) []"

definition newerOrSame :: "MiniReport \<Rightarrow> MiniReport \<Rightarrow> bool" where
  "newerOrSame a b = (timestampOf b \<le> timestampOf a)"

definition nameBefore :: "(string \<Rightarrow> string \<Rightarrow> int) \<Rightarrow> MiniReport \<Rightarrow> MiniReport \<Rightarrow> bool" where
  "nameBefore collate a b = (collate (MiniReport.displayName a) (MiniReport.displayName b) \<le> 0)"

definition newerThenByName ::
  "(string \<Rightarrow> string \<Rightarrow> int) \<Rightarrow> MiniReport \<Rightarrow> MiniReport \<Rightarrow> bool" where
  "newerThenByName collate a b =
     (timestampOf b < timestampOf a \<or> (timestampOf a = timestampOf b \<and> nameBefore collate a b))"

definition consistentCollation :: "(string \<Rightarrow> string \<Rightarrow> int) \<Rightarrow> bool" where
  "consistentCollation collate =
     ((\<forall>a b. 0 \<le> collate a b \<longrightarrow> collate b a \<le> 0)
      \<and> (\<forall>a b d. collate a b \<le> 0 \<and> collate b d \<le> 0 \<longrightarrow> collate a d \<le> 0))"

definition hasDisplayName :: "MiniReport \<Rightarrow> bool" where
  "hasDisplayName report = (MiniReport.displayName report \<noteq> [])"

text \<open>A staged report with another timestamp.\<close>

definition setTimestamp :: "(MiniReport \<Rightarrow> string option) \<Rightarrow> MiniReport \<Rightarrow> MiniReport" where
  "setTimestamp g report = report\<lparr>MiniReport.lastVisibleActionCreated := g report\<rparr>"

text \<open>
  What the first pass of \<^verbatim>\<open>getOrderedReportIDs\<close> asks of a report besides its
  notification preference. The hidden preference is overridden by the error flag, by the
  focus, for the system chat and for a pinned report (\<^verbatim>\<open>shouldOverrideHidden\<close>, line
  108; a report with the error flag is kept at line 100, before its preference is looked
  at). A hidden report is dropped when nothing overrides the preference; a report that is
  not dropped for being hidden still has to pass the other filters (it is no
  one-transaction thread, it carries the error flag or is accepted by
  \<^verbatim>\<open>shouldReportBeInOptionList\<close>, and it belongs to the workspace when a workspace
  scope is given and it is not the focused report).
\<close>

definition overridesHidden ::
  "('a Report_scheme) Collaborators \<Rightarrow> string option \<Rightarrow> Beta list option
    \<Rightarrow> ReportActions OnyxCollection \<Rightarrow> TransactionViolation list OnyxCollection
    \<Rightarrow> 'a Report_scheme \<Rightarrow> bool" where
  "overridesHidden c currentReportId betas allReportActions transactionViolations report =
     (errorFlagOf c betas allReportActions transactionViolations report
      \<or> strictEquals (Report.reportID report) currentReportId
      \<or> isSystemChat c report
      \<or> truthyBool (Report.isPinned report))"

definition hiddenWithoutOverride ::
  "('a Report_scheme) Collaborators \<Rightarrow> string option \<Rightarrow> Beta list option
    \<Rightarrow> ReportActions OnyxCollection \<Rightarrow> TransactionViolation list OnyxCollection
    \<Rightarrow> 'a Report_scheme \<Rightarrow> bool" where
  "hiddenWithoutOverride c currentReportId betas allReportActions transactionViolations report =
     (Report.notificationPreference report = Some HIDDEN
      \<and> \<not> errorFlagOf c betas allReportActions transactionViolations report
      \<and> \<not> strictEquals (Report.reportID report) currentReportId
      \<and> \<not> isSystemChat c report
      \<and> \<not> truthyBool (Report.isPinned report))"

definition passesOtherFilters ::
  "('a Report_scheme) Collaborators \<Rightarrow> string option \<Rightarrow> Beta list option
    \<Rightarrow> PolicySelector OnyxCollection \<Rightarrow> bool \<Rightarrow> ReportActions OnyxCollection
    \<Rightarrow> TransactionViolation list OnyxCollection \<Rightarrow> string \<Rightarrow> int list
    \<Rightarrow> 'a Report_scheme \<Rightarrow> bool" where
  "passesOtherFilters c currentReportId betas policies isInFocusMode allReportActions
      transactionViolations currentPolicyID policyMemberAccountIDs report =
     (\<not> isOneTransactionThread c (Report.reportID report)
           (orElse (Report.parentReportID report) ''0'')
      \<and> (errorFlagOf c betas allReportActions transactionViolations report
           \<or> shouldReportBeInOptionList c report (orElse currentReportId ''-1'') isInFocusMode
                betas policies True
                (shouldShowViolations c report (orElse betas []) transactionViolations) True)
      \<and> ((currentPolicyID = [] \<and> policyMemberAccountIDs = [])
           \<or> strictEquals (Report.reportID report) currentReportId
           \<or> doesReportBelongToWorkspace c
                (keptCopy c betas allReportActions transactionViolations report)
                policyMemberAccountIDs currentPolicyID))"

text \<open>
  Modelled from the spec: \<^verbatim>\<open>ReportUtils.getDisplayNamesWithTooltips\<close> is not among the
  sources. The specification derives "display-name tooltips for at most the first 10
  participants", a tooltip for a participant: the function returns at most as many entries
  as the list it is given has.
\<close>

definition tooltipPerParticipant :: "'r Collaborators \<Rightarrow> bool" where
  "tooltipPerParticipant c =
     (\<forall>details shortForm fallback postfix.
        length (getDisplayNamesWithTooltips c details shortForm fallback postfix)
          \<le> length details)"

section \<open>Sample data\<close>

text \<open>
  Reports with the attributes the sample collaborators decide on: a name, an archived
  flag, the error object, a type (a report without a type is not listed, the type
  \<open>system\<close> marks the system chat), the participants, and an unread flag.
\<close>

record SampleReport = Report +
  reportName :: string
  archived :: bool
  errors :: Errors
  reportType :: "string option"
  participants :: "int list"
  unread :: bool

definition sampleReport :: "string \<Rightarrow> string \<Rightarrow> SampleReport" where
  "sampleReport ident name =
     \<lparr>Report.reportID = Some ident, Report.parentReportID = None, parentReportActionID = None,
      Report.notificationPreference = Some ALWAYS, Report.isPinned = None,
      Report.lastVisibleActionCreated = None, lastActorAccountID = None,
      hasErrorsOtherThanFailedReceipt = None,
      reportName = name, archived = False, errors = [], reportType = Some ''chat'',
      participants = [], unread = False\<rparr>"

definition sampleTooltip :: "PersonalDetails option \<Rightarrow> DisplayNameWithTooltip" where
  "sampleTooltip details =
     \<lparr>DisplayNameWithTooltip.displayName = PersonalDetails.displayName (orElse details emptyPersonalDetails),
      DisplayNameWithTooltip.login = PersonalDetails.login (orElse details emptyPersonalDetails),
      DisplayNameWithTooltip.accountID = PersonalDetails.accountID (orElse details emptyPersonalDetails),
      DisplayNameWithTooltip.pronouns = PersonalDetails.pronouns (orElse details emptyPersonalDetails)\<rparr>"

text \<open>
  Collaborators for the samples; \<open>drafts\<close> lists the reports with a draft comment.
  Messages are translated to their keys and names are collated by character code.
\<close>

definition sampleCollaborators :: "string list \<Rightarrow> SampleReport Collaborators" where
  "sampleCollaborators drafts =
     \<lparr>REPORT_ACTIONS = ''reportActions_'',
      shouldShowViolations = (\<lambda>report betas violations. False),
      getAllReportErrors = (\<lambda>report actions. Some (errors report)),
      translateLocal = (\<lambda>key. key),
      isOneTransactionThread = (\<lambda>ident parent. False),
      isSystemChat = (\<lambda>report. reportType report = Some ''system''),
      shouldReportBeInOptionList =
        (\<lambda>report current focus betas policies excludeEmptyChats violations includeSelfDM.
           reportType report \<noteq> None),
      doesReportBelongToWorkspace = (\<lambda>report members policy. True),
      getReportName = (\<lambda>report policy. reportName report),
      getReportAction = (\<lambda>parent action. None),
      requiresAttentionFromCurrentUser = (\<lambda>report action. False),
      hasValidDraftComment = (\<lambda>ident. ident \<in> set drafts),
      isArchivedRoom = archived,
      localeCompare = compareStringDates,
      getParticipantsAccountIDsForDisplay = (\<lambda>report excludeHidden. participants report),
      getPersonalDetailsForAccountIDs =
        (\<lambda>accountIDs details. map (\<lambda>a. (a, orElse (map_of details a) None)) accountIDs),
      isChatRoom = (\<lambda>report. False),
      isPolicyExpenseChat = (\<lambda>report. False),
      isExpenseReport = (\<lambda>report. False),
      isSelfDM = (\<lambda>report. False),
      isUnread = unread,
      isJoinRequestInAdminRoom = (\<lambda>report. False),
      getDisplayNamesWithTooltips =
        (\<lambda>details shortForm fallback postfix. map sampleTooltip details)\<rparr>"

text \<open>A collection of eight entries, one of them empty.\<close>

definition sampleReports :: "SampleReport OnyxCollection" where
  "sampleReports =
     Some [(''report_1'', Some ((sampleReport ''1'' ''zed'')
              \<lparr>archived := True, Report.lastVisibleActionCreated := Some ''2023-01-01''\<rparr>)),
           (''report_2'', Some ((sampleReport ''2'' ''amy'')
              \<lparr>Report.lastVisibleActionCreated := Some ''2023-01-01''\<rparr>)),
           (''report_3'', Some ((sampleReport ''3'' ''bob'')
              \<lparr>Report.lastVisibleActionCreated := Some ''2023-01-02''\<rparr>)),
           (''report_4'', Some ((sampleReport ''4'' ''col'')
              \<lparr>Report.lastVisibleActionCreated := Some ''2023-01-02''\<rparr>)),
           (''report_5'', Some ((sampleReport ''5'' ''dan'')\<lparr>errors := [(''e'', ErrorTuple [''boom''])]\<rparr>)),
           (''report_6'', Some ((sampleReport ''6'' ''eve'')
              \<lparr>Report.isPinned := Some True, Report.notificationPreference := Some HIDDEN\<rparr>)),
           (''report_7'', None),
           (''report_8'', Some ((sampleReport ''8'' ''fay'')
              \<lparr>Report.notificationPreference := Some HIDDEN\<rparr>))]"

text \<open>
  Two archived reports with the same timestamp; two reports under one identifier and two
  without any; a pinned report with hidden notifications and no type.
\<close>

definition tiedArchivedReports :: "SampleReport OnyxCollection" where
  "tiedArchivedReports =
     Some [(''report_1'', Some ((sampleReport ''1'' ''b'')
              \<lparr>archived := True, Report.lastVisibleActionCreated := Some ''2023-01-01''\<rparr>)),
           (''report_2'', Some ((sampleReport ''2'' ''a'')
              \<lparr>archived := True, Report.lastVisibleActionCreated := Some ''2023-01-01''\<rparr>))]"

definition duplicateReports :: "SampleReport OnyxCollection" where
  "duplicateReports =
     Some [(''report_7'', Some (sampleReport ''7'' ''amy'')),
           (''report_8'', Some (sampleReport ''7'' ''bob'')),
           (''report_9'', Some ((sampleReport ''9'' ''col'')\<lparr>Report.reportID := None\<rparr>)),
           (''report_10'', Some ((sampleReport ''10'' ''dan'')\<lparr>Report.reportID := None\<rparr>))]"

definition pinnedHiddenReports :: "SampleReport OnyxCollection" where
  "pinnedHiddenReports =
     Some [(''report_1'', Some ((sampleReport ''1'' ''amy'')
              \<lparr>Report.isPinned := Some True, Report.notificationPreference := Some HIDDEN,
               reportType := None\<rparr>))]"

text \<open>
  The hidden report and the pinned and hidden report of the collection of eight; a hidden
  report without type that has an error and a hidden system chat, in a collection of
  their own; and the buckets of the collection of eight in focus mode before they are
  sorted.
\<close>

definition hiddenSample :: SampleReport where
  "hiddenSample =
     (sampleReport ''8'' ''fay'')\<lparr>Report.notificationPreference := Some HIDDEN\<rparr>"

definition hiddenErrorSample :: SampleReport where
  "hiddenErrorSample =
     (sampleReport ''5'' ''dan'')
       \<lparr>Report.notificationPreference := Some HIDDEN,
        errors := [(''e'', ErrorTuple [''boom''])], reportType := None\<rparr>"

definition hiddenSystemSample :: SampleReport where
  "hiddenSystemSample =
     (sampleReport ''4'' ''sys'')
       \<lparr>Report.notificationPreference := Some HIDDEN, reportType := Some ''system''\<rparr>"

definition hiddenErrorReports :: "SampleReport OnyxCollection" where
  "hiddenErrorReports =
     Some [(''report_5'', Some hiddenErrorSample), (''report_4'', Some hiddenSystemSample)]"

definition pinnedHiddenSample :: SampleReport where
  "pinnedHiddenSample =
     (sampleReport ''6'' ''eve'')
       \<lparr>Report.isPinned := Some True, Report.notificationPreference := Some HIDDEN\<rparr>"

definition sampleBuckets :: Buckets where
  "sampleBuckets =
     partitionReports (sampleCollaborators [])
       (reportsToDisplay (sampleCollaborators []) (Some ''9'') sampleReports None None True None
          None [] [])"

text \<open>
  Reports for \<^verbatim>\<open>getOptionData\<close>: one whose only error is the failed receipt scan,
  one with twelve participants, one that is unread and has no last actor; and the personal
  details of twelve accounts.
\<close>

definition benignErrorReport :: SampleReport where
  "benignErrorReport =
     (sampleReport ''1'' ''amy'')
       \<lparr>errors := [(''smartscan'', ErrorTuple [''iou.error.genericSmartscanFailureMessage''])]\<rparr>"

definition samplePersonalDetails :: PersonalDetailsList where
  "samplePersonalDetails =
     map (\<lambda>a. (a, Some \<lparr>PersonalDetails.accountID = Some a, PersonalDetails.login = None,
                         PersonalDetails.phoneNumber = None, PersonalDetails.displayName = None,
                         PersonalDetails.pronouns = None\<rparr>))
       [1, 2, 3, 4, 5, 6, 7, 8, 9, 10, 11, 12]"

definition crowdedReport :: SampleReport where
  "crowdedReport =
     (sampleReport ''2'' ''team'')\<lparr>participants := [1, 2, 3, 4, 5, 6, 7, 8, 9, 10, 11, 12]\<rparr>"

definition unreadReport :: SampleReport where
  "unreadReport = (sampleReport ''3'' ''bob'')\<lparr>unread := True\<rparr>"

section \<open>The sort\<close>

lemma mset_insertSorted: "mset (insertSorted f x ys) = add_mset x (mset ys)"
  by (induction ys) auto

lemma set_insertSorted: "set (insertSorted f x ys) = insert x (set ys)"
  by (induction ys) auto

lemma mset_foldl_insertSorted:
  "mset (foldl (\<lambda>sorted x. insertSorted f x sorted) acc xs) = mset acc + mset xs"
  by (induction xs arbitrary: acc) (auto simp: mset_insertSorted)

lemma mset_arraySort: "mset (arraySort f xs) = mset xs"
  by (simp add: arraySort_def mset_foldl_insertSorted)

lemma set_arraySort: "set (arraySort f xs) = set xs"
  using mset_arraySort [of f xs] by (metis set_mset_mset)

lemma list_all_arraySort: "list_all P (arraySort f xs) = list_all P xs"
  by (simp add: list_all_iff set_arraySort)

lemma list_all_insertSorted: "list_all P (insertSorted f x ys) = (P x \<and> list_all P ys)"
  by (simp add: list_all_iff set_insertSorted)

text \<open>
  The sort puts the elements in the order \<open>R\<close> whenever the comparator agrees with
  \<open>R\<close> on the elements sorted (they all satisfy \<open>P\<close>) and \<open>R\<close> is transitive there.
\<close>

lemma sorted_wrt_insertSorted:
  assumes tr: "\<And>a b d. P a \<Longrightarrow> P b \<Longrightarrow> P d \<Longrightarrow> R a b \<Longrightarrow> R b d \<Longrightarrow> R a d"
    and lt: "\<And>a b. P a \<Longrightarrow> P b \<Longrightarrow> f a b < 0 \<Longrightarrow> R a b"
    and ge: "\<And>a b. P a \<Longrightarrow> P b \<Longrightarrow> \<not> f a b < 0 \<Longrightarrow> R b a"
  shows "P x \<Longrightarrow> list_all P ys \<Longrightarrow> sorted_wrt R ys \<Longrightarrow> sorted_wrt R (insertSorted f x ys)"
proof (induction ys)
  case Nil
  then show ?case by simp
next
  case (Cons y ys)
  have Py: "P y" and Pys: "list_all P ys" using Cons.prems(2) by simp_all
  have after_y: "\<And>z. z \<in> set ys \<Longrightarrow> R y z" and sorted_ys: "sorted_wrt R ys"
    using Cons.prems(3) by simp_all
  have Pz: "\<And>z. z \<in> set ys \<Longrightarrow> P z" using Pys by (simp add: list_all_iff)
  show ?case
  proof (cases "f x y < 0")
    case True
    have xy: "R x y" using lt [OF Cons.prems(1) Py True] .
    have "R x z" if "z \<in> set ys" for z
      using tr [OF Cons.prems(1) Py Pz [OF that] xy after_y [OF that]] .
    with xy True after_y sorted_ys show ?thesis by simp
  next
    case False
    have yx: "R y x" using ge [OF Cons.prems(1) Py False] .
    have IH: "sorted_wrt R (insertSorted f x ys)"
      using Cons.IH [OF Cons.prems(1) Pys sorted_ys] .
    have "\<And>z. z \<in> set (insertSorted f x ys) \<Longrightarrow> R y z"
      using yx after_y by (auto simp: set_insertSorted)
    with False IH show ?thesis by simp
  qed
qed

lemma sorted_wrt_foldl_insertSorted:
  assumes tr: "\<And>a b d. P a \<Longrightarrow> P b \<Longrightarrow> P d \<Longrightarrow> R a b \<Longrightarrow> R b d \<Longrightarrow> R a d"
    and lt: "\<And>a b. P a \<Longrightarrow> P b \<Longrightarrow> f a b < 0 \<Longrightarrow> R a b"
    and ge: "\<And>a b. P a \<Longrightarrow> P b \<Longrightarrow> \<not> f a b < 0 \<Longrightarrow> R b a"
  shows "list_all P acc \<Longrightarrow> list_all P xs \<Longrightarrow> sorted_wrt R acc
    \<Longrightarrow> sorted_wrt R (foldl (\<lambda>sorted x. insertSorted f x sorted) acc xs)"
proof (induction xs arbitrary: acc)
  case Nil
  then show ?case by simp
next
  case (Cons x xs)
  have Px: "P x" and Pxs: "list_all P xs" using Cons.prems(2) by simp_all
  have s: "sorted_wrt R (insertSorted f x acc)"
    using sorted_wrt_insertSorted [of P R f x acc, OF tr lt ge Px Cons.prems(1) Cons.prems(3)] .
  have a: "list_all P (insertSorted f x acc)"
    using Px Cons.prems(1) by (simp add: list_all_insertSorted)
  show ?case using Cons.IH [OF a Pxs s] by simp
qed

lemma sorted_wrt_arraySort:
  assumes tr: "\<And>a b d. P a \<Longrightarrow> P b \<Longrightarrow> P d \<Longrightarrow> R a b \<Longrightarrow> R b d \<Longrightarrow> R a d"
    and lt: "\<And>a b. P a \<Longrightarrow> P b \<Longrightarrow> f a b < 0 \<Longrightarrow> R a b"
    and ge: "\<And>a b. P a \<Longrightarrow> P b \<Longrightarrow> \<not> f a b < 0 \<Longrightarrow> R b a"
    and all: "list_all P xs"
  shows "sorted_wrt R (arraySort f xs)"
  unfolding arraySort_def
  using sorted_wrt_foldl_insertSorted [of P R f "[]" xs, OF tr lt ge _ all] by simp

text \<open>A change of the elements that the comparator does not see commutes with the sort.\<close>

lemma insertSorted_map:
  assumes "\<And>a b. f (h a) (h b) = f a b"
  shows "insertSorted f (h x) (map h ys) = map h (insertSorted f x ys)"
  by (induction ys) (simp_all add: assms)

lemma foldl_insertSorted_map:
  assumes "\<And>a b. f (h a) (h b) = f a b"
  shows "foldl (\<lambda>sorted x. insertSorted f x sorted) (map h acc) (map h xs)
         = map h (foldl (\<lambda>sorted x. insertSorted f x sorted) acc xs)"
proof (induction xs arbitrary: acc)
  case Nil
  then show ?case by simp
next
  case (Cons x xs)
  show ?case using Cons.IH [of "insertSorted f x acc"]
    by (simp add: insertSorted_map [of f h, OF assms])
qed

lemma arraySort_map:
  assumes "\<And>a b. f (h a) (h b) = f a b"
  shows "arraySort f (map h xs) = map h (arraySort f xs)"
  unfolding arraySort_def using foldl_insertSorted_map [of f h "[]" xs, OF assms] by simp

section \<open>The comparators\<close>

lemma compareStringDates_neg: "(compareStringDates a b < 0) = (a < b)"
  by (simp add: compareStringDates_def)

lemma compareStringDates_zero: "(compareStringDates a b = 0) = (a = b)"
  by (auto simp: compareStringDates_def)

lemma compareStringDates_consistent: "consistentCollation compareStringDates"
  unfolding consistentCollation_def
proof (intro conjI allI impI)
  fix a b :: string
  assume "0 \<le> compareStringDates a b"
  then show "compareStringDates b a \<le> 0" by (auto simp: compareStringDates_def split: if_splits)
next
  fix a b d :: string
  assume "compareStringDates a b \<le> 0 \<and> compareStringDates b d \<le> 0"
  then have "a \<le> b" "b \<le> d" by (auto simp: compareStringDates_def split: if_splits)
  then have "a \<le> d" by simp
  then show "compareStringDates a d \<le> 0" by (auto simp: compareStringDates_def)
qed

lemma compareDates_neg:
  "hasTimestamp a \<Longrightarrow> hasTimestamp b \<Longrightarrow>
   (compareLastVisibleActionCreated a b < 0) = (timestampOf b < timestampOf a)"
  by (simp add: compareLastVisibleActionCreated_def hasTimestamp_def timestampOf_def
      compareStringDates_neg)

lemma compareDates_zero:
  "hasTimestamp a \<Longrightarrow> hasTimestamp b \<Longrightarrow>
   (compareLastVisibleActionCreated a b = 0) = (timestampOf a = timestampOf b)"
  by (auto simp: compareLastVisibleActionCreated_def hasTimestamp_def timestampOf_def
      compareStringDates_zero)

lemma compareDisplayNames_named:
  "hasDisplayName a \<Longrightarrow> hasDisplayName b \<Longrightarrow>
   compareDisplayNames collate a b = collate (MiniReport.displayName a) (MiniReport.displayName b)"
  by (simp add: compareDisplayNames_def hasDisplayName_def)

lemma sorted_by_date:
  assumes "list_all hasTimestamp xs"
  shows "sorted_wrt newerOrSame (arraySort compareLastVisibleActionCreated xs)"
proof (rule sorted_wrt_arraySort [where P = hasTimestamp, OF _ _ _ assms])
  fix a b d assume "newerOrSame a b" "newerOrSame b d"
  then show "newerOrSame a d" by (simp add: newerOrSame_def)
next
  fix a b assume "hasTimestamp a" "hasTimestamp b" "compareLastVisibleActionCreated a b < 0"
  then show "newerOrSame a b" by (simp add: compareDates_neg newerOrSame_def)
next
  fix a b assume "hasTimestamp a" "hasTimestamp b" "\<not> compareLastVisibleActionCreated a b < 0"
  then show "newerOrSame b a" by (simp add: compareDates_neg newerOrSame_def)
qed

lemma newerOrSame_trans: "newerOrSame a b \<Longrightarrow> newerOrSame b d \<Longrightarrow> newerOrSame a d"
  by (simp add: newerOrSame_def)

lemma compareDates_before:
  "hasTimestamp a \<Longrightarrow> hasTimestamp b \<Longrightarrow> compareLastVisibleActionCreated a b < 0
   \<Longrightarrow> newerOrSame a b"
  by (simp add: compareDates_neg newerOrSame_def)

lemma compareDates_not_before:
  "hasTimestamp a \<Longrightarrow> hasTimestamp b \<Longrightarrow> \<not> compareLastVisibleActionCreated a b < 0
   \<Longrightarrow> newerOrSame b a"
  by (simp add: compareDates_neg newerOrSame_def)

text \<open>The sort by date is stable: reports with the same timestamp keep their order.\<close>

lemma filter_insertSorted_date:
  "hasTimestamp x \<Longrightarrow> list_all hasTimestamp ys \<Longrightarrow> sorted_wrt newerOrSame ys \<Longrightarrow>
   filter (\<lambda>m. timestampOf m = t) (insertSorted compareLastVisibleActionCreated x ys)
   = filter (\<lambda>m. timestampOf m = t) ys @ (if timestampOf x = t then [x] else [])"
proof (induction ys)
  case Nil
  then show ?case by simp
next
  case (Cons y ys)
  have hy: "hasTimestamp y" and hys: "list_all hasTimestamp ys" using Cons.prems(2) by simp_all
  have sorted_ys: "sorted_wrt newerOrSame ys" using Cons.prems(3) by simp
  have after_y: "\<And>z. z \<in> set ys \<Longrightarrow> timestampOf z \<le> timestampOf y"
    using Cons.prems(3) by (simp add: newerOrSame_def)
  show ?case
  proof (cases "compareLastVisibleActionCreated x y < 0")
    case True
    then have lt: "timestampOf y < timestampOf x"
      using Cons.prems(1) hy by (simp add: compareDates_neg)
    show ?thesis
    proof (cases "timestampOf x = t")
      case True
      have "timestampOf z \<noteq> t" if "z \<in> set (y # ys)" for z
      proof -
        have "timestampOf z \<le> timestampOf y"
          using that after_y by (cases "z = y") auto
        then have "timestampOf z < timestampOf x" using lt by (rule order.strict_trans1)
        with True show ?thesis by simp
      qed
      then have "filter (\<lambda>m. timestampOf m = t) (y # ys) = []"
        by (simp only: filter_empty_conv) blast
      with \<open>compareLastVisibleActionCreated x y < 0\<close> True show ?thesis by simp
    next
      case False
      with \<open>compareLastVisibleActionCreated x y < 0\<close> show ?thesis by simp
    qed
  next
    case False
    then show ?thesis using Cons.IH [OF Cons.prems(1) hys sorted_ys] by simp
  qed
qed

lemma filter_foldl_insertSorted_date:
  "list_all hasTimestamp acc \<Longrightarrow> list_all hasTimestamp xs \<Longrightarrow> sorted_wrt newerOrSame acc \<Longrightarrow>
   filter (\<lambda>m. timestampOf m = t)
     (foldl (\<lambda>sorted x. insertSorted compareLastVisibleActionCreated x sorted) acc xs)
   = filter (\<lambda>m. timestampOf m = t) acc @ filter (\<lambda>m. timestampOf m = t) xs"
proof (induction xs arbitrary: acc)
  case Nil
  then show ?case by simp
next
  case (Cons x xs)
  have hx: "hasTimestamp x" and hxs: "list_all hasTimestamp xs" using Cons.prems(2) by simp_all
  have s: "sorted_wrt newerOrSame (insertSorted compareLastVisibleActionCreated x acc)"
    using sorted_wrt_insertSorted [of hasTimestamp newerOrSame compareLastVisibleActionCreated x acc,
        OF newerOrSame_trans compareDates_before compareDates_not_before hx Cons.prems(1)
          Cons.prems(3)] .
  have a: "list_all hasTimestamp (insertSorted compareLastVisibleActionCreated x acc)"
    using hx Cons.prems(1) by (simp add: list_all_insertSorted)
  show ?case
    using Cons.IH [OF a hxs s] filter_insertSorted_date [OF hx Cons.prems(1) Cons.prems(3), of t]
    by simp
qed

lemma stable_by_date:
  "list_all hasTimestamp xs \<Longrightarrow>
   filter (\<lambda>m. timestampOf m = t) (arraySort compareLastVisibleActionCreated xs)
   = filter (\<lambda>m. timestampOf m = t) xs"
  unfolding arraySort_def using filter_foldl_insertSorted_date [of "[]" xs t] by simp

lemma sorted_by_date_default:
  assumes "list_all hasTimestamp xs"
  shows "sorted_wrt newerOrSame (arraySort (compareNonArchivedDefault collate) xs)"
proof (rule sorted_wrt_arraySort [where P = hasTimestamp, OF _ _ _ assms])
  fix a b d assume "newerOrSame a b" "newerOrSame b d"
  then show "newerOrSame a d" by (simp add: newerOrSame_def)
next
  fix a b assume h: "hasTimestamp a" "hasTimestamp b" "compareNonArchivedDefault collate a b < 0"
  show "newerOrSame a b"
  proof (cases "compareLastVisibleActionCreated a b = 0")
    case True
    then show ?thesis using h by (simp add: compareDates_zero newerOrSame_def)
  next
    case False
    then have "compareLastVisibleActionCreated a b < 0"
      using h(3) by (simp add: compareNonArchivedDefault_def)
    then show ?thesis using h by (simp add: compareDates_neg newerOrSame_def)
  qed
next
  fix a b assume h: "hasTimestamp a" "hasTimestamp b" "\<not> compareNonArchivedDefault collate a b < 0"
  show "newerOrSame b a"
  proof (cases "compareLastVisibleActionCreated a b = 0")
    case True
    then show ?thesis using h by (simp add: compareDates_zero newerOrSame_def)
  next
    case False
    then have "\<not> compareLastVisibleActionCreated a b < 0"
      using h(3) by (simp add: compareNonArchivedDefault_def)
    then show ?thesis using h by (simp add: compareDates_neg newerOrSame_def)
  qed
qed

lemma sorted_by_date_then_name:
  assumes cc: "consistentCollation collate"
    and all: "list_all (\<lambda>m. hasTimestamp m \<and> hasDisplayName m) xs"
  shows "sorted_wrt (newerThenByName collate) (arraySort (compareNonArchivedDefault collate) xs)"
proof (rule sorted_wrt_arraySort [where P = "\<lambda>m. hasTimestamp m \<and> hasDisplayName m", OF _ _ _ all])
  fix a b d assume "newerThenByName collate a b" "newerThenByName collate b d"
  moreover have "collate x y \<le> 0 \<Longrightarrow> collate y z \<le> 0 \<Longrightarrow> collate x z \<le> 0" for x y z
    using cc unfolding consistentCollation_def by blast
  ultimately show "newerThenByName collate a d"
    unfolding newerThenByName_def nameBefore_def by (metis order_less_trans)
next
  fix a b assume h: "hasTimestamp a \<and> hasDisplayName a" "hasTimestamp b \<and> hasDisplayName b"
    "compareNonArchivedDefault collate a b < 0"
  show "newerThenByName collate a b"
  proof (cases "compareLastVisibleActionCreated a b = 0")
    case True
    then have "collate (MiniReport.displayName a) (MiniReport.displayName b) < 0"
      using h by (simp add: compareNonArchivedDefault_def compareDisplayNames_named)
    then show ?thesis using True h
      by (simp add: compareDates_zero newerThenByName_def nameBefore_def)
  next
    case False
    then have "compareLastVisibleActionCreated a b < 0"
      using h(3) by (simp add: compareNonArchivedDefault_def)
    then show ?thesis using h by (simp add: compareDates_neg newerThenByName_def)
  qed
next
  fix a b assume h: "hasTimestamp a \<and> hasDisplayName a" "hasTimestamp b \<and> hasDisplayName b"
    "\<not> compareNonArchivedDefault collate a b < 0"
  have anti: "0 \<le> collate x y \<Longrightarrow> collate y x \<le> 0" for x y
    using cc unfolding consistentCollation_def by blast
  show "newerThenByName collate b a"
  proof (cases "compareLastVisibleActionCreated a b = 0")
    case True
    then have "0 \<le> collate (MiniReport.displayName a) (MiniReport.displayName b)"
      using h by (simp add: compareNonArchivedDefault_def compareDisplayNames_named)
    then show ?thesis using True h anti
      by (simp add: compareDates_zero newerThenByName_def nameBefore_def)
  next
    case False
    then have "\<not> compareLastVisibleActionCreated a b < 0"
      using h(3) by (simp add: compareNonArchivedDefault_def)
    then have "timestampOf a < timestampOf b"
      using False h by (simp add: compareDates_neg compareDates_zero)
    then show ?thesis by (simp add: newerThenByName_def)
  qed
qed

lemma sorted_by_name:
  assumes cc: "consistentCollation collate"
    and all: "list_all hasDisplayName xs"
  shows "sorted_wrt (nameBefore collate) (arraySort (compareDisplayNames collate) xs)"
proof (rule sorted_wrt_arraySort [where P = hasDisplayName, OF _ _ _ all])
  fix a b d assume "nameBefore collate a b" "nameBefore collate b d"
  then show "nameBefore collate a d"
    using cc unfolding consistentCollation_def nameBefore_def by blast
next
  fix a b assume "hasDisplayName a" "hasDisplayName b" "compareDisplayNames collate a b < 0"
  then show "nameBefore collate a b"
    by (simp add: compareDisplayNames_named nameBefore_def)
next
  fix a b assume "hasDisplayName a" "hasDisplayName b" "\<not> compareDisplayNames collate a b < 0"
  then show "nameBefore collate b a"
    using cc unfolding consistentCollation_def nameBefore_def
    by (simp add: compareDisplayNames_named)
qed

lemma compareDisplayNames_setTimestamp:
  "compareDisplayNames collate (setTimestamp g a) (setTimestamp g b) = compareDisplayNames collate a b"
  by (simp add: compareDisplayNames_def setTimestamp_def)

section \<open>The two passes over the reports\<close>

lemma filterReport_append:
  "filterReport c cur betas policies focus actions violations acc entry =
     acc @ filterReport c cur betas policies focus actions violations [] entry"
  by (simp add: filterReport_def Let_def split: option.splits)

lemma foldl_filterReport:
  "foldl (filterReport c cur betas policies focus actions violations) acc entries =
     acc @ concat (map (filterReport c cur betas policies focus actions violations []) entries)"
proof (induction entries arbitrary: acc)
  case Nil
  then show ?case by simp
next
  case (Cons e es)
  show ?case
    using Cons.IH [of "filterReport c cur betas policies focus actions violations acc e"]
      filterReport_append [of c cur betas policies focus actions violations acc e]
    by simp
qed

lemma filterReport_None:
  "filterReport c cur betas policies focus actions violations [] None = []"
  by (simp add: filterReport_def)

text \<open>What the first pass does with one report.\<close>

lemma filterReport_Some:
  "filterReport c cur betas policies focus actions violations [] (Some report) =
     (if isOneTransactionThread c (Report.reportID report) (orElse (Report.parentReportID report) ''0'')
      then []
      else if errorFlagOf c betas actions violations report
      then [report\<lparr>hasErrorsOtherThanFailedReceipt := Some True\<rparr>]
      else if Report.notificationPreference report = Some HIDDEN
              \<and> \<not> (strictEquals (Report.reportID report) cur \<or> isSystemChat c report
                     \<or> truthyBool (Report.isPinned report))
      then []
      else if shouldReportBeInOptionList c report (orElse cur ''-1'') focus betas policies True
                (shouldShowViolations c report (orElse betas []) violations) True
      then [report] else [])"
  by (simp add: filterReport_def errorFlagOf_def hasErrorOtherThanFailedReceipt_def Let_def)

lemma filterReport_kept:
  "x \<in> set (filterReport c cur betas policies focus actions violations [] (Some report))
   \<Longrightarrow> x = keptCopy c betas actions violations report"
  by (simp add: filterReport_Some keptCopy_def split: if_splits)

lemma reportID_keptCopy:
  "reportIDOrSentinel (keptCopy c betas actions violations report) = reportIDOrSentinel report"
  by (simp add: keptCopy_def reportIDOrSentinel_def)

lemma subseq_ids_filterReport:
  "subseq (map reportIDOrSentinel
             (concat (map (filterReport c cur betas policies focus actions violations []) entries)))
          (map reportIDOrSentinel
             (concat (map (\<lambda>entry. case entry of None \<Rightarrow> [] | Some report \<Rightarrow> [report]) entries)))"
proof (induction entries)
  case Nil
  then show ?case by simp
next
  case (Cons e es)
  show ?case
  proof (cases e)
    case None
    then show ?thesis using Cons.IH by (simp add: filterReport_None)
  next
    case (Some report)
    have "subseq (map reportIDOrSentinel
                    (filterReport c cur betas policies focus actions violations [] (Some report)))
            (map reportIDOrSentinel [report])"
      by (simp add: filterReport_Some reportIDOrSentinel_def)
    from list_emb_append_mono [OF this Cons.IH] Some show ?thesis by simp
  qed
qed

lemma subseq_ids_reportsToDisplay:
  "subseq (map reportIDOrSentinel
             (reportsToDisplay c cur allReports betas policies focus actions violations pid members))
          (map reportIDOrSentinel (presentReports allReports))"
proof -
  let ?d = "concat (map (filterReport c cur betas policies focus actions violations [])
                      (objectValues allReports))"
  have a: "subseq (map reportIDOrSentinel ?d) (map reportIDOrSentinel (presentReports allReports))"
    unfolding presentReports_def by (rule subseq_ids_filterReport)
  have b: "subseq (map reportIDOrSentinel (filter P ?d)) (map reportIDOrSentinel ?d)" for P
    by (simp add: subseq_map)
  show ?thesis
    using a subseq_order.trans [OF b a]
    by (simp add: reportsToDisplay_def Let_def foldl_filterReport)
qed

lemma bucketContents_bucketReport:
  "bucketContents (bucketReport c b report) k =
     bucketContents b k @ (if specBucket c report = k then [toMiniReport c report] else [])"
  by (cases k) (simp_all add: bucketReport_def specBucket_def Let_def orElse_def truthyBool_def
      split: option.splits)

lemma bucketContents_foldl:
  "bucketContents (foldl (bucketReport c) b reports) k =
     bucketContents b k @ map (toMiniReport c) (filter (\<lambda>report. specBucket c report = k) reports)"
  by (induction reports arbitrary: b) (simp_all add: bucketContents_bucketReport)

lemma bucketContents_emptyBuckets: "bucketContents emptyBuckets k = []"
  by (cases k) (simp_all add: emptyBuckets_def)

lemma bucketContents_partitionReports:
  "bucketContents (partitionReports c reports) k =
     map (toMiniReport c) (filter (\<lambda>report. specBucket c report = k) reports)"
  by (simp add: partitionReports_def bucketContents_foldl bucketContents_emptyBuckets)

lemma mset_filter_buckets:
  "mset (filter (\<lambda>x. g x = PinnedGBR) xs) + mset (filter (\<lambda>x. g x = Errors) xs)
     + mset (filter (\<lambda>x. g x = Drafts) xs) + mset (filter (\<lambda>x. g x = Default) xs)
     + mset (filter (\<lambda>x. g x = Archived) xs) = mset xs"
proof (induction xs)
  case Nil
  then show ?case by simp
next
  case (Cons x xs)
  then show ?case by (cases "g x") simp_all
qed

lemma length_filter_buckets:
  "length (filter (\<lambda>x. g x = PinnedGBR) xs) + length (filter (\<lambda>x. g x = Drafts) xs)
     + length (filter (\<lambda>x. g x = Archived) xs) + length (filter (\<lambda>x. g x = Errors) xs)
     + length (filter (\<lambda>x. g x = Default) xs) = length xs"
proof (induction xs)
  case Nil
  then show ?case by simp
next
  case (Cons x xs)
  then show ?case by (cases "g x") simp_all
qed

section \<open>The buckets of the whole function\<close>

lemma mset_bucketContents_sortBuckets:
  "mset (bucketContents (sortBuckets collate isInDefaultMode b) k) = mset (bucketContents b k)"
  by (cases k) (simp_all add: sortBuckets_def Let_def mset_arraySort)

lemma flattenBuckets_contents:
  "flattenBuckets b =
     map miniReportIDOrSentinel (bucketContents b PinnedGBR)
     @ map miniReportIDOrSentinel (bucketContents b Errors)
     @ map miniReportIDOrSentinel (bucketContents b Drafts)
     @ map miniReportIDOrSentinel (bucketContents b Default)
     @ map miniReportIDOrSentinel (bucketContents b Archived)"
  by (simp add: flattenBuckets_def miniReportIDOrSentinel_def)

lemma miniReportID_toMiniReport:
  "miniReportIDOrSentinel (toMiniReport c report) = reportIDOrSentinel report"
  by (simp add: miniReportIDOrSentinel_def toMiniReport_def reportIDOrSentinel_def)

lemma mset_sortedBuckets:
  "mset (bucketContents
           (sortedBuckets c cur allReports betas policies mode actions violations pid members) k)
   = mset (map (toMiniReport c)
        (filter (\<lambda>report. specBucket c report = k)
           (reportsToDisplay c cur allReports betas policies (mode = Some GSD) actions violations
              (orElse pid []) (orElse members []))))"
  by (simp only: sortedBuckets_def Let_def mset_bucketContents_sortBuckets
      bucketContents_partitionReports)

lemma mset_getOrderedReportIDs:
  "mset (getOrderedReportIDs c cur allReports betas policies mode actions violations pid members)
   = mset (map reportIDOrSentinel
        (reportsToDisplay c cur allReports betas policies (mode = Some GSD) actions violations
           (orElse pid []) (orElse members [])))"
proof -
  let ?shown = "reportsToDisplay c cur allReports betas policies (mode = Some GSD) actions
                  violations (orElse pid []) (orElse members [])"
  let ?B = "sortedBuckets c cur allReports betas policies mode actions violations pid members"
  have seg: "mset (map miniReportIDOrSentinel (bucketContents ?B k))
      = image_mset reportIDOrSentinel (mset (filter (\<lambda>report. specBucket c report = k) ?shown))" for k
  proof -
    have "mset (map miniReportIDOrSentinel (bucketContents ?B k))
        = image_mset miniReportIDOrSentinel (mset (bucketContents ?B k))" by simp
    also have "\<dots> = image_mset miniReportIDOrSentinel
        (mset (map (toMiniReport c) (filter (\<lambda>report. specBucket c report = k) ?shown)))"
      by (simp only: mset_sortedBuckets)
    also have "\<dots> = image_mset reportIDOrSentinel
        (mset (filter (\<lambda>report. specBucket c report = k) ?shown))"
      by (simp add: multiset.map_comp comp_def miniReportID_toMiniReport del: mset_filter)
    finally show ?thesis .
  qed
  have "mset (flattenBuckets ?B)
      = image_mset reportIDOrSentinel
          (mset (filter (\<lambda>report. specBucket c report = PinnedGBR) ?shown)
           + mset (filter (\<lambda>report. specBucket c report = Errors) ?shown)
           + mset (filter (\<lambda>report. specBucket c report = Drafts) ?shown)
           + mset (filter (\<lambda>report. specBucket c report = Default) ?shown)
           + mset (filter (\<lambda>report. specBucket c report = Archived) ?shown))"
    unfolding flattenBuckets_contents mset_append seg by (simp del: mset_filter)
  also have "\<dots> = image_mset reportIDOrSentinel (mset ?shown)"
    by (simp only: mset_filter_buckets)
  finally show ?thesis by (simp add: getOrderedReportIDs_def)
qed

lemma subseq_set_mono: "subseq xs ys \<Longrightarrow> set xs \<subseteq> set ys"
  by (auto elim: list_emb_set)

lemma subseq_distinct: "subseq xs ys \<Longrightarrow> distinct ys \<Longrightarrow> distinct xs"
  using subseqs_distinctD [of xs ys] by simp

lemmas sample_simps = sampleCollaborators_def sampleReport_def sampleReports_def
  getOrderedReportIDs_def sortedBuckets_def
  reportsToDisplay_def filterReport_def partitionReports_def bucketReport_def sortBuckets_def
  flattenBuckets_def arraySort_def toMiniReport_def emptyBuckets_def objectValues_def orElse_def
  lookupEntry_def templateString_def strictEquals_def truthyBool_def truthyString_def
  compareDisplayNames_def compareLastVisibleActionCreated_def compareNonArchivedDefault_def
  compareStringDates_def indexZero_def Let_def

section \<open>The modes of the sort\<close>

lemma sortBuckets_default_mode:
  "nonArchivedReports (sortBuckets collate True b)
     = arraySort (compareNonArchivedDefault collate) (nonArchivedReports b)"
  "archivedReports (sortBuckets collate True b)
     = arraySort compareLastVisibleActionCreated (archivedReports b)"
  by (simp_all add: sortBuckets_def Let_def)

lemma sortBuckets_focus_mode:
  "nonArchivedReports (sortBuckets collate False b)
     = arraySort (compareDisplayNames collate) (nonArchivedReports b)"
  "archivedReports (sortBuckets collate False b)
     = arraySort (compareDisplayNames collate) (archivedReports b)"
  by (simp_all add: sortBuckets_def Let_def)

lemma sortedBuckets_mode:
  "sortedBuckets c cur allReports betas policies mode actions violations pid members
   = sortBuckets (localeCompare c) (mode \<noteq> Some GSD)
       (partitionReports c
          (reportsToDisplay c cur allReports betas policies (mode = Some GSD) actions violations
             (orElse pid []) (orElse members [])))"
  by (simp add: sortedBuckets_def Let_def)

section \<open>Membership in the output\<close>

lemma in_presentReports:
  "(report \<in> set (presentReports collection)) = (Some report \<in> set (objectValues collection))"
  by (auto simp: presentReports_def split: option.splits)

lemma in_filtered:
  "(x \<in> set (concat (map (filterReport c cur betas policies focus actions violations []) entries)))
   = (\<exists>report. Some report \<in> set entries
        \<and> x \<in> set (filterReport c cur betas policies focus actions violations [] (Some report)))"
proof
  assume "x \<in> set (concat (map (filterReport c cur betas policies focus actions violations []) entries))"
  then obtain e where e: "e \<in> set entries"
    "x \<in> set (filterReport c cur betas policies focus actions violations [] e)"
    by auto
  from e(2) obtain report where "e = Some report"
    by (cases e) (simp_all add: filterReport_None)
  with e show "\<exists>report. Some report \<in> set entries
        \<and> x \<in> set (filterReport c cur betas policies focus actions violations [] (Some report))"
    by blast
next
  assume "\<exists>report. Some report \<in> set entries
        \<and> x \<in> set (filterReport c cur betas policies focus actions violations [] (Some report))"
  then show "x \<in> set (concat (map (filterReport c cur betas policies focus actions violations []) entries))"
    by auto
qed

lemma in_reportsToDisplay:
  "(x \<in> set (reportsToDisplay c cur allReports betas policies focus actions violations pid members))
   = ((\<exists>report \<in> set (presentReports allReports).
         x \<in> set (filterReport c cur betas policies focus actions violations [] (Some report)))
      \<and> ((pid = [] \<and> members = []) \<or> strictEquals (Report.reportID x) cur
           \<or> doesReportBelongToWorkspace c x members pid))"
proof -
  let ?d = "foldl (filterReport c cur betas policies focus actions violations) []
              (objectValues allReports)"
  have d: "(x \<in> set ?d)
      = (\<exists>report \<in> set (presentReports allReports).
           x \<in> set (filterReport c cur betas policies focus actions violations [] (Some report)))"
    unfolding foldl_filterReport append_Nil in_filtered in_presentReports Bex_def
    by (simp add: in_presentReports)
  show ?thesis
  proof (cases "pid = [] \<and> members = []")
    case True
    then show ?thesis using d by (simp add: reportsToDisplay_def Let_def)
  next
    case False
    then have "pid \<noteq> [] \<or> 0 < length members" by simp
    then have "reportsToDisplay c cur allReports betas policies focus actions violations pid members
        = filter (\<lambda>report. strictEquals (Report.reportID report) cur
                     \<or> doesReportBelongToWorkspace c report members pid) ?d"
      by (simp add: reportsToDisplay_def Let_def)
    then show ?thesis using d False by auto
  qed
qed

lemma in_getOrderedReportIDs:
  "(i \<in> set (getOrderedReportIDs c cur allReports betas policies mode actions violations pid members))
   = (\<exists>x \<in> set (reportsToDisplay c cur allReports betas policies (mode = Some GSD) actions
                   violations (orElse pid []) (orElse members [])). reportIDOrSentinel x = i)"
proof -
  have "set (getOrderedReportIDs c cur allReports betas policies mode actions violations pid members)
      = set (map reportIDOrSentinel
          (reportsToDisplay c cur allReports betas policies (mode = Some GSD) actions violations
             (orElse pid []) (orElse members [])))"
    using mset_getOrderedReportIDs by (rule mset_eq_setD)
  then show ?thesis by auto
qed

lemma specBucket_pinned: "truthyBool (Report.isPinned report) \<Longrightarrow> specBucket c report = PinnedGBR"
  by (simp add: specBucket_def)

lemma reportID_field_keptCopy:
  "Report.reportID (keptCopy c betas actions violations report) = Report.reportID report"
  by (simp add: keptCopy_def)

lemma isPinned_keptCopy:
  "Report.isPinned (keptCopy c betas actions violations report) = Report.isPinned report"
  by (simp add: keptCopy_def)

section \<open>The fields of the option data\<close>

lemmas option_data_simps = getOptionData_def firstOrEmpty_def emptyPersonalDetails_def Let_def

lemma brickRoadIndicator_field:
  "map_option brickRoadIndicator
     (getOptionData c (Some report) reportActions (Some personalDetails) preferredLocale policy
        parentAction hasViolations)
   = Some (Some (if isJoinRequestInAdminRoom c report then INFO
                 else if orElse (getAllReportErrors c report reportActions) [] \<noteq> [] \<or> hasViolations
                 then ERROR else NO_INDICATOR))"
  by (simp add: getOptionData_def Let_def)

lemma isUnread_field:
  "map_option OptionData.isUnread
     (getOptionData c (Some report) reportActions (Some personalDetails) preferredLocale policy
        parentAction hasViolations)
   = Some (Some (isJoinRequestInAdminRoom c report
                 \<or> isUnread c report \<and> truthyNumber (lastActorAccountID report)))"
  by (simp add: getOptionData_def Let_def)

lemma displayNamesWithTooltips_field:
  "map_option displayNamesWithTooltips
     (getOptionData c (Some report) reportActions (Some personalDetails) preferredLocale policy
        parentAction hasViolations)
   = Some (Some (getDisplayNamesWithTooltips c
        (take 10 (map snd (getPersonalDetailsForAccountIDs c
           (getParticipantsAccountIDsForDisplay c report None) personalDetails)))
        (length (map snd (getPersonalDetailsForAccountIDs c
           (getParticipantsAccountIDsForDisplay c report None) personalDetails)) > 1
         \<or> isChatRoom c report \<or> isPolicyExpenseChat c report \<or> isExpenseReport c report)
        None (isSelfDM c report)))"
  by (simp add: getOptionData_def Let_def)

section \<open>The properties\<close>

subsection \<open>Order of the buckets\<close>

text \<open>
  C1. For every input, the sequence returned by \<^verbatim>\<open>getOrderedReportIDs\<close> lists the
  identifiers of the pinned/GBR bucket first, then those of the error bucket, then the
  drafts, then the default bucket, then the archived bucket; and each of the five segments
  holds, in some order, exactly the displayed reports that the priority rule assigns to
  that bucket. Timestamps play no part: they can only reorder a segment.
\<close>

theorem bucket_order:
  "getOrderedReportIDs c cur allReports betas policies mode actions violations pid members
     = map miniReportIDOrSentinel
         (bucketContents
            (sortedBuckets c cur allReports betas policies mode actions violations pid members)
            PinnedGBR)
       @ map miniReportIDOrSentinel
           (bucketContents
              (sortedBuckets c cur allReports betas policies mode actions violations pid members)
              Errors)
       @ map miniReportIDOrSentinel
           (bucketContents
              (sortedBuckets c cur allReports betas policies mode actions violations pid members)
              Drafts)
       @ map miniReportIDOrSentinel
           (bucketContents
              (sortedBuckets c cur allReports betas policies mode actions violations pid members)
              Default)
       @ map miniReportIDOrSentinel
           (bucketContents
              (sortedBuckets c cur allReports betas policies mode actions violations pid members)
              Archived)
   \<and> mset (bucketContents
             (sortedBuckets c cur allReports betas policies mode actions violations pid members) k)
       = mset (map (toMiniReport c)
           (filter (\<lambda>report. specBucket c report = k)
             (reportsToDisplay c cur allReports betas policies (mode = Some GSD) actions violations
               (orElse pid []) (orElse members []))))"
  by (simp only: getOrderedReportIDs_def flattenBuckets_contents mset_sortedBuckets simp_thms)

text \<open>
  On the collection of eight with report 4 in draft: the pinned report 6, the report 5 with
  an error, the draft 4, the default reports 3 and 2, the archived report 1.
\<close>

theorem bucket_order_witness:
  "getOrderedReportIDs (sampleCollaborators [''4'']) (Some ''9'') sampleReports None None
     (Some DEFAULT) None None None None = [''6'', ''5'', ''4'', ''3'', ''2'', ''1'']
   \<and> map miniReportIDOrSentinel
         (bucketContents (sortedBuckets (sampleCollaborators [''4'']) (Some ''9'') sampleReports
            None None (Some DEFAULT) None None None None) Default) = [''3'', ''2'']"
  using bucket_order [of "sampleCollaborators [''4'']" "Some ''9''" sampleReports None None
      "Some DEFAULT" None None None None Default]
  by (simp add: sample_simps miniReportIDOrSentinel_def)

subsection \<open>Assignment to the buckets\<close>

text \<open>
  C2. The second pass assigns every report to display to the bucket the priority rule
  names (pinned or requiring attention, else draft, else archived, else error flag, else
  default): each of the five arrays holds exactly the reports of its bucket, in the order
  of the pass, and the sizes of the five arrays add up to the number of reports, so every
  report is in exactly one of them.
\<close>

theorem partition_priority:
  "bucketContents (partitionReports c reports) k =
     map (toMiniReport c) (filter (\<lambda>report. specBucket c report = k) reports)
   \<and> length (pinnedAndGBRReports (partitionReports c reports))
       + length (draftReports (partitionReports c reports))
       + length (archivedReports (partitionReports c reports))
       + length (errorReports (partitionReports c reports))
       + length (nonArchivedReports (partitionReports c reports)) = length reports"
proof -
  let ?b = "partitionReports c reports"
  have "length (bucketContents ?b PinnedGBR) + length (bucketContents ?b Drafts)
      + length (bucketContents ?b Archived) + length (bucketContents ?b Errors)
      + length (bucketContents ?b Default) = length reports"
    unfolding bucketContents_partitionReports length_map by (rule length_filter_buckets)
  then show ?thesis by (simp add: bucketContents_partitionReports)
qed

text \<open>
  On the collection of eight, six reports are displayed and the drafts are report 4 alone.
\<close>

theorem partition_priority_witness:
  "bucketContents
     (partitionReports (sampleCollaborators [''4''])
        (reportsToDisplay (sampleCollaborators [''4'']) (Some ''9'') sampleReports None None False
           None None [] [])) Drafts
   = [\<lparr>MiniReport.reportID = Some ''4'', MiniReport.displayName = ''col'',
       MiniReport.lastVisibleActionCreated = Some ''2023-01-02''\<rparr>]
   \<and> length (reportsToDisplay (sampleCollaborators [''4'']) (Some ''9'') sampleReports None None
         False None None [] []) = 6"
  using partition_priority [of "sampleCollaborators [''4'']"
      "reportsToDisplay (sampleCollaborators [''4'']) (Some ''9'') sampleReports None None False
         None None [] []" Drafts]
  by (simp add: sample_simps specBucket_def)

subsection \<open>Most-recent mode\<close>

text \<open>
  C3 does not hold as stated for the archived bucket: its comparator reads the timestamps
  only. Two archived reports with the same timestamp, named \<open>b\<close> and \<open>a\<close>, stay in
  the order of the collection although \<open>a\<close> collates before \<open>b\<close>.
\<close>

theorem archived_ties_keep_input_order:
  "archivedReports (sortedBuckets (sampleCollaborators []) None tiedArchivedReports None None
      (Some DEFAULT) None None None None)
   = [\<lparr>MiniReport.reportID = Some ''1'', MiniReport.displayName = ''b'',
       MiniReport.lastVisibleActionCreated = Some ''2023-01-01''\<rparr>,
      \<lparr>MiniReport.reportID = Some ''2'', MiniReport.displayName = ''a'',
       MiniReport.lastVisibleActionCreated = Some ''2023-01-01''\<rparr>]
   \<and> localeCompare (sampleCollaborators []) ''a'' ''b'' < 0
   \<and> getOrderedReportIDs (sampleCollaborators []) None tiedArchivedReports None None
        (Some DEFAULT) None None None None = [''1'', ''2'']"
  by (simp add: sample_simps tiedArchivedReports_def)

text \<open>
  C3, amended. In most-recent mode (any priority mode but GSD): when every report of the
  default bucket has a timestamp the bucket is in descending order of timestamp; when
  moreover every report of it has a display name and the collation is consistent, reports
  with equal timestamps are in ascending order of display name; when every report of the
  archived bucket has a timestamp that bucket is in descending order of timestamp, and its
  reports with equal timestamps stay in the order in which they were put into the bucket:
  there is no tie-break by name. A report without timestamp or name compares equal to every
  other in that respect, which makes the comparator inconsistent and leaves the order to
  the sort.
\<close>

theorem most_recent_mode_order:
  assumes "mode \<noteq> Some GSD"
    and "B = sortedBuckets c cur allReports betas policies mode actions violations pid members"
  shows "(list_all hasTimestamp (nonArchivedReports B)
            \<longrightarrow> sorted_wrt newerOrSame (nonArchivedReports B))
       \<and> (consistentCollation (localeCompare c)
            \<and> list_all (\<lambda>m. hasTimestamp m \<and> hasDisplayName m) (nonArchivedReports B)
            \<longrightarrow> sorted_wrt (newerThenByName (localeCompare c)) (nonArchivedReports B))
       \<and> (list_all hasTimestamp (archivedReports B)
            \<longrightarrow> sorted_wrt newerOrSame (archivedReports B)
              \<and> filter (\<lambda>m. timestampOf m = t) (archivedReports B)
                = filter (\<lambda>m. timestampOf m = t)
                    (archivedReports
                       (partitionReports c
                          (reportsToDisplay c cur allReports betas policies (mode = Some GSD)
                             actions violations (orElse pid []) (orElse members [])))))"
proof -
  let ?b = "partitionReports c
              (reportsToDisplay c cur allReports betas policies (mode = Some GSD) actions
                 violations (orElse pid []) (orElse members []))"
  have B: "B = sortBuckets (localeCompare c) True ?b"
    using assms by (simp add: sortedBuckets_mode)
  have n: "nonArchivedReports B
      = arraySort (compareNonArchivedDefault (localeCompare c)) (nonArchivedReports ?b)"
    and a: "archivedReports B = arraySort compareLastVisibleActionCreated (archivedReports ?b)"
    unfolding B by (rule sortBuckets_default_mode)+
  have 1: "sorted_wrt newerOrSame (nonArchivedReports B)"
    if "list_all hasTimestamp (nonArchivedReports B)"
    using that unfolding n by (simp add: list_all_arraySort sorted_by_date_default)
  have 2: "sorted_wrt (newerThenByName (localeCompare c)) (nonArchivedReports B)"
    if "consistentCollation (localeCompare c)"
      "list_all (\<lambda>m. hasTimestamp m \<and> hasDisplayName m) (nonArchivedReports B)"
    using that unfolding n by (simp add: list_all_arraySort sorted_by_date_then_name)
  have 3: "sorted_wrt newerOrSame (archivedReports B)"
    if "list_all hasTimestamp (archivedReports B)"
    using that unfolding a by (simp add: list_all_arraySort sorted_by_date)
  have 4: "filter (\<lambda>m. timestampOf m = t) (archivedReports B)
      = filter (\<lambda>m. timestampOf m = t) (archivedReports ?b)"
    if "list_all hasTimestamp (archivedReports B)"
    using that unfolding a by (simp add: list_all_arraySort stable_by_date)
  from 1 2 3 4 show ?thesis by blast
qed

text \<open>
  On the collection of eight: 3 and 4 share the newest timestamp and are ordered by name,
  2 is older.
\<close>

theorem most_recent_mode_order_witness:
  "nonArchivedReports (sortedBuckets (sampleCollaborators []) (Some ''9'') sampleReports None None
      (Some DEFAULT) None None None None)
   = [\<lparr>MiniReport.reportID = Some ''3'', MiniReport.displayName = ''bob'',
       MiniReport.lastVisibleActionCreated = Some ''2023-01-02''\<rparr>,
      \<lparr>MiniReport.reportID = Some ''4'', MiniReport.displayName = ''col'',
       MiniReport.lastVisibleActionCreated = Some ''2023-01-02''\<rparr>,
      \<lparr>MiniReport.reportID = Some ''2'', MiniReport.displayName = ''amy'',
       MiniReport.lastVisibleActionCreated = Some ''2023-01-01''\<rparr>]
   \<and> sorted_wrt (newerThenByName compareStringDates)
        (nonArchivedReports (sortedBuckets (sampleCollaborators []) (Some ''9'') sampleReports
           None None (Some DEFAULT) None None None None))
   \<and> sorted_wrt newerOrSame
        (archivedReports (sortedBuckets (sampleCollaborators []) (Some ''9'') sampleReports
           None None (Some DEFAULT) None None None None))"
proof -
  let ?B = "sortedBuckets (sampleCollaborators []) (Some ''9'') sampleReports None None
              (Some DEFAULT) None None None None"
  have n: "nonArchivedReports ?B
     = [\<lparr>MiniReport.reportID = Some ''3'', MiniReport.displayName = ''bob'',
         MiniReport.lastVisibleActionCreated = Some ''2023-01-02''\<rparr>,
        \<lparr>MiniReport.reportID = Some ''4'', MiniReport.displayName = ''col'',
         MiniReport.lastVisibleActionCreated = Some ''2023-01-02''\<rparr>,
        \<lparr>MiniReport.reportID = Some ''2'', MiniReport.displayName = ''amy'',
         MiniReport.lastVisibleActionCreated = Some ''2023-01-01''\<rparr>]"
    by (simp add: sample_simps)
  have a: "archivedReports ?B
     = [\<lparr>MiniReport.reportID = Some ''1'', MiniReport.displayName = ''zed'',
         MiniReport.lastVisibleActionCreated = Some ''2023-01-01''\<rparr>]"
    by (simp add: sample_simps)
  have lc: "localeCompare (sampleCollaborators []) = compareStringDates"
    by (simp add: sampleCollaborators_def)
  have h1: "Some DEFAULT \<noteq> Some GSD" by simp
  have h2: "consistentCollation (localeCompare (sampleCollaborators []))"
    unfolding lc by (rule compareStringDates_consistent)
  have h3: "list_all (\<lambda>m. hasTimestamp m \<and> hasDisplayName m) (nonArchivedReports ?B)"
    unfolding n by (simp add: hasTimestamp_def hasDisplayName_def truthyString_def)
  have h4: "list_all hasTimestamp (archivedReports ?B)"
    unfolding a by (simp add: hasTimestamp_def truthyString_def)
  from most_recent_mode_order [OF h1 refl, of "sampleCollaborators []" "Some ''9''" sampleReports
      None None None None None None] h2 h3 h4 n lc
  show ?thesis by simp
qed

subsection \<open>Focus mode\<close>

text \<open>
  C4. In focus mode (priority mode GSD) the final buckets are the sort of the partition
  with the display-name comparator, and the order of the default and of the archived
  bucket does not depend on the timestamps: replacing the timestamps of the reports by any
  others and sorting gives the same order as sorting first. When the reports of the bucket
  have display names and the collation is consistent, the bucket is in ascending order of
  display name.
\<close>

theorem focus_mode_order:
  "sortedBuckets c cur allReports betas policies (Some GSD) actions violations pid members
     = sortBuckets (localeCompare c) False
         (partitionReports c
            (reportsToDisplay c cur allReports betas policies True actions violations
               (orElse pid []) (orElse members [])))
   \<and> nonArchivedReports
       (sortBuckets collate False
          (b\<lparr>nonArchivedReports := map (setTimestamp g) (nonArchivedReports b)\<rparr>))
     = map (setTimestamp g) (nonArchivedReports (sortBuckets collate False b))
   \<and> archivedReports
       (sortBuckets collate False
          (b\<lparr>archivedReports := map (setTimestamp g) (archivedReports b)\<rparr>))
     = map (setTimestamp g) (archivedReports (sortBuckets collate False b))
   \<and> (consistentCollation collate \<and> list_all hasDisplayName (nonArchivedReports b)
        \<longrightarrow> sorted_wrt (nameBefore collate) (nonArchivedReports (sortBuckets collate False b)))
   \<and> (consistentCollation collate \<and> list_all hasDisplayName (archivedReports b)
        \<longrightarrow> sorted_wrt (nameBefore collate) (archivedReports (sortBuckets collate False b)))"
proof -
  have 0: "sortedBuckets c cur allReports betas policies (Some GSD) actions violations pid members
     = sortBuckets (localeCompare c) False
         (partitionReports c
            (reportsToDisplay c cur allReports betas policies True actions violations
               (orElse pid []) (orElse members [])))"
    by (simp add: sortedBuckets_mode)
  have 1: "nonArchivedReports
       (sortBuckets collate False
          (b\<lparr>nonArchivedReports := map (setTimestamp g) (nonArchivedReports b)\<rparr>))
     = map (setTimestamp g) (nonArchivedReports (sortBuckets collate False b))"
    by (simp add: sortBuckets_focus_mode arraySort_map compareDisplayNames_setTimestamp)
  have 2: "archivedReports
       (sortBuckets collate False
          (b\<lparr>archivedReports := map (setTimestamp g) (archivedReports b)\<rparr>))
     = map (setTimestamp g) (archivedReports (sortBuckets collate False b))"
    by (simp add: sortBuckets_focus_mode arraySort_map compareDisplayNames_setTimestamp)
  have 3: "sorted_wrt (nameBefore collate) (nonArchivedReports (sortBuckets collate False b))"
    if "consistentCollation collate" "list_all hasDisplayName (nonArchivedReports b)"
    using that by (simp add: sortBuckets_focus_mode sorted_by_name)
  have 4: "sorted_wrt (nameBefore collate) (archivedReports (sortBuckets collate False b))"
    if "consistentCollation collate" "list_all hasDisplayName (archivedReports b)"
    using that by (simp add: sortBuckets_focus_mode sorted_by_name)
  from 0 1 2 3 4 show ?thesis by blast
qed

text \<open>
  On the collection of eight, the default bucket is 2, 3, 4 (amy, bob, col), with the
  timestamps of the reports and with none.
\<close>

theorem focus_mode_order_witness:
  "map MiniReport.reportID
     (nonArchivedReports
        (sortBuckets compareStringDates False
           (sampleBuckets\<lparr>nonArchivedReports :=
              map (setTimestamp (\<lambda>m. None)) (nonArchivedReports sampleBuckets)\<rparr>)))
   = [Some ''2'', Some ''3'', Some ''4'']
   \<and> map MiniReport.reportID (nonArchivedReports (sortBuckets compareStringDates False sampleBuckets))
     = [Some ''2'', Some ''3'', Some ''4'']
   \<and> sorted_wrt (nameBefore compareStringDates)
       (nonArchivedReports (sortBuckets compareStringDates False sampleBuckets))
   \<and> getOrderedReportIDs (sampleCollaborators []) (Some ''9'') sampleReports None None (Some GSD)
       None None None None = [''6'', ''5'', ''2'', ''3'', ''4'', ''1'']"
proof -
  have n: "nonArchivedReports sampleBuckets
     = [\<lparr>MiniReport.reportID = Some ''2'', MiniReport.displayName = ''amy'',
         MiniReport.lastVisibleActionCreated = Some ''2023-01-01''\<rparr>,
        \<lparr>MiniReport.reportID = Some ''3'', MiniReport.displayName = ''bob'',
         MiniReport.lastVisibleActionCreated = Some ''2023-01-02''\<rparr>,
        \<lparr>MiniReport.reportID = Some ''4'', MiniReport.displayName = ''col'',
         MiniReport.lastVisibleActionCreated = Some ''2023-01-02''\<rparr>]"
    by (simp add: sampleBuckets_def sample_simps)
  have s: "nonArchivedReports (sortBuckets compareStringDates False sampleBuckets)
     = nonArchivedReports sampleBuckets"
    unfolding sortBuckets_focus_mode n by (simp add: sample_simps)
  have h: "list_all hasDisplayName (nonArchivedReports sampleBuckets)"
    unfolding n by (simp add: hasDisplayName_def)
  have out: "getOrderedReportIDs (sampleCollaborators []) (Some ''9'') sampleReports None None
      (Some GSD) None None None None = [''6'', ''5'', ''2'', ''3'', ''4'', ''1'']"
    by (simp add: sample_simps)
  from focus_mode_order [where c = "sampleCollaborators []" and cur = "Some ''9''"
      and allReports = sampleReports and betas = None and policies = None and actions = None
      and violations = None and pid = None and members = None
      and collate = compareStringDates and b = sampleBuckets and g = "\<lambda>m. None"]
    compareStringDates_consistent h s n out
  show ?thesis by (simp add: setTimestamp_def)
qed

subsection \<open>Identifiers of the output\<close>

text \<open>
  C5 does not hold as stated: nothing removes duplicates. Two reports stored under one
  identifier are both listed, and so are two reports without identifier, each as the
  sentinel.
\<close>

theorem duplicate_identifiers:
  "getOrderedReportIDs (sampleCollaborators []) None duplicateReports None None None None None
     None None = [''7'', ''7'', ''-1'', ''-1'']
   \<and> \<not> distinct (getOrderedReportIDs (sampleCollaborators []) None duplicateReports None None
          None None None None None)"
  by (simp add: sample_simps duplicateReports_def)

text \<open>
  C5, amended. Every element of the output is the identifier of a report of the input
  collection, or the sentinel \<open>-1\<close> for a report without identifier; and the output has
  no duplicates whenever the reports of the input collection have pairwise distinct
  identifiers (the sentinel counting as the identifier of a report without one).
\<close>

theorem identifiers_from_input:
  "set (getOrderedReportIDs c cur allReports betas policies mode actions violations pid members)
     \<subseteq> set (map reportIDOrSentinel (presentReports allReports))
   \<and> (distinct (map reportIDOrSentinel (presentReports allReports))
      \<longrightarrow> distinct (getOrderedReportIDs c cur allReports betas policies mode actions violations
            pid members))"
proof -
  let ?out = "getOrderedReportIDs c cur allReports betas policies mode actions violations pid members"
  let ?shown = "reportsToDisplay c cur allReports betas policies (mode = Some GSD) actions
                  violations (orElse pid []) (orElse members [])"
  have m: "mset ?out = mset (map reportIDOrSentinel ?shown)" by (rule mset_getOrderedReportIDs)
  have s: "subseq (map reportIDOrSentinel ?shown) (map reportIDOrSentinel (presentReports allReports))"
    by (rule subseq_ids_reportsToDisplay)
  have "set ?out = set (map reportIDOrSentinel ?shown)" using m by (rule mset_eq_setD)
  then have a: "set ?out \<subseteq> set (map reportIDOrSentinel (presentReports allReports))"
    using subseq_set_mono [OF s] by simp
  have b: "distinct ?out" if "distinct (map reportIDOrSentinel (presentReports allReports))"
    using subseq_distinct [OF s that] mset_eq_imp_distinct_iff [OF m] by simp
  from a b show ?thesis by blast
qed

text \<open>The collection of eight has distinct identifiers, and so has its output.\<close>

theorem identifiers_from_input_witness:
  "distinct (map reportIDOrSentinel (presentReports sampleReports))
   \<and> distinct (getOrderedReportIDs (sampleCollaborators [''4'']) (Some ''9'') sampleReports None
        None (Some DEFAULT) None None None None)
   \<and> set (getOrderedReportIDs (sampleCollaborators [''4'']) (Some ''9'') sampleReports None
        None (Some DEFAULT) None None None None)
      \<subseteq> set (map reportIDOrSentinel (presentReports sampleReports))"
proof -
  have d: "distinct (map reportIDOrSentinel (presentReports sampleReports))"
    by (simp add: presentReports_def reportIDOrSentinel_def sampleReports_def sampleReport_def
        objectValues_def orElse_def)
  show ?thesis
    using d identifiers_from_input [of "sampleCollaborators [''4'']" "Some ''9''" sampleReports
        None None "Some DEFAULT" None None None None]
    by blast
qed

subsection \<open>Presence of the arguments of \<^verbatim>\<open>getOptionData\<close>\<close>

text \<open>
  C6. \<^verbatim>\<open>getOptionData\<close> returns a record exactly when the report and the table of
  personal details are both present, and the empty result otherwise; it never fails.
\<close>

theorem getOptionData_defined_iff:
  "(getOptionData c report reportActions personalDetails preferredLocale policy parentAction
      hasViolations \<noteq> None)
   = (report \<noteq> None \<and> personalDetails \<noteq> None)"
  by (simp add: getOptionData_def Let_def split: option.splits)

text \<open>Both present, the report absent, the table absent.\<close>

theorem getOptionData_defined_iff_witness:
  "getOptionData (sampleCollaborators []) (Some unreadReport) None (Some samplePersonalDetails)
     ''en'' None None False \<noteq> None
   \<and> getOptionData (sampleCollaborators []) None None (Some samplePersonalDetails)
     ''en'' None None False = None
   \<and> getOptionData (sampleCollaborators []) (Some unreadReport) None None
     ''en'' None None False = None"
  using getOptionData_defined_iff [of "sampleCollaborators []" "Some unreadReport" None
      "Some samplePersonalDetails" "''en''" None None False]
    getOptionData_defined_iff [of "sampleCollaborators []" None None
      "Some samplePersonalDetails" "''en''" None None False]
    getOptionData_defined_iff [of "sampleCollaborators []" "Some unreadReport" None
      None "''en''" None None False]
  by simp

subsection \<open>The brick-road indicator\<close>

text \<open>
  C7 does not hold as stated: \<^verbatim>\<open>getOptionData\<close> counts every key of the error
  object and does not set the failed receipt scan apart. A report whose only error is that
  message, with no violations, is given the error indicator.
\<close>

theorem benign_error_shows_indicator:
  "map_option brickRoadIndicator
     (getOptionData (sampleCollaborators []) (Some benignErrorReport) None (Some [])
        ''en'' None None False) = Some (Some ERROR)
   \<and> \<not> hasErrorOtherThanFailedReceipt (sampleCollaborators [])
          (orElse (getAllReportErrors (sampleCollaborators []) benignErrorReport None) [])
   \<and> \<not> isJoinRequestInAdminRoom (sampleCollaborators []) benignErrorReport"
  by (simp add: option_data_simps sampleCollaborators_def benignErrorReport_def sampleReport_def
      hasErrorOtherThanFailedReceipt_def indexZero_def orElse_def)

text \<open>
  C7, amended. In the record returned by \<^verbatim>\<open>getOptionData\<close> the indicator is the info
  status for a join request in an admin room; otherwise it is the error status when the
  report has at least one error of any kind or the violations flag is set, and empty when
  neither holds.
\<close>

theorem brickRoadIndicator_value:
  assumes "getOptionData c (Some report) reportActions (Some personalDetails) preferredLocale
             policy parentAction hasViolations = Some result"
  shows "brickRoadIndicator result
         = Some (if isJoinRequestInAdminRoom c report then INFO
                 else if orElse (getAllReportErrors c report reportActions) [] \<noteq> [] \<or> hasViolations
                 then ERROR else NO_INDICATOR)"
  using brickRoadIndicator_field [of c report reportActions personalDetails preferredLocale policy
      parentAction hasViolations] assms
  by simp

text \<open>A report without errors: the indicator follows the violations flag.\<close>

theorem brickRoadIndicator_value_witness:
  "getOptionData (sampleCollaborators []) (Some unreadReport) None (Some samplePersonalDetails)
     ''en'' None None True \<noteq> None
   \<and> brickRoadIndicator
       (the (getOptionData (sampleCollaborators []) (Some unreadReport) None
          (Some samplePersonalDetails) ''en'' None None True)) = Some ERROR
   \<and> brickRoadIndicator
       (the (getOptionData (sampleCollaborators []) (Some unreadReport) None
          (Some samplePersonalDetails) ''en'' None None False)) = Some NO_INDICATOR"
proof -
  obtain r1 where r1: "getOptionData (sampleCollaborators []) (Some unreadReport) None
      (Some samplePersonalDetails) ''en'' None None True = Some r1"
    by (simp add: getOptionData_def Let_def)
  obtain r2 where r2: "getOptionData (sampleCollaborators []) (Some unreadReport) None
      (Some samplePersonalDetails) ''en'' None None False = Some r2"
    by (simp add: getOptionData_def Let_def)
  show ?thesis
    using brickRoadIndicator_value [OF r1] brickRoadIndicator_value [OF r2] r1 r2
    by (simp add: sampleCollaborators_def unreadReport_def sampleReport_def orElse_def)
qed

subsection \<open>Hidden reports\<close>

text \<open>
  C8 does not hold as stated: the override spares a pinned report only the check of its
  notification preference. A pinned report with hidden notifications, not focused, that
  \<^verbatim>\<open>shouldReportBeInOptionList\<close> rejects is not in the output.
\<close>

theorem pinned_hidden_report_dropped:
  "presentReports pinnedHiddenReports
     = [(sampleReport ''1'' ''amy'')
          \<lparr>Report.isPinned := Some True, Report.notificationPreference := Some HIDDEN,
           reportType := None\<rparr>]
   \<and> getOrderedReportIDs (sampleCollaborators []) None pinnedHiddenReports None None None None
        None None None = []"
  by (simp add: sample_simps pinnedHiddenReports_def presentReports_def)

text \<open>
  C8, amended. An identifier is not in the output when every report of the collection
  listed under it has hidden notifications and nothing overrides them (no error flag, not
  focused, not the system chat, not pinned). A report with hidden notifications and one of
  the four overrides (it carries the error flag, it is the focused report, it is the system
  chat, or it is pinned) is kept, and its identifier is in the output, provided it passes
  the other filters: it is no one-transaction thread, it carries the error flag or is
  accepted by \<^verbatim>\<open>shouldReportBeInOptionList\<close>, and it belongs to the workspace or is
  the focused report when a workspace scope is given. A pinned report with hidden
  notifications that is not focused and passes the other filters is placed in the
  pinned/GBR bucket.
\<close>

theorem hidden_reports_override:
  "((\<forall>report \<in> set (presentReports allReports).
       reportIDOrSentinel report = i
         \<longrightarrow> hiddenWithoutOverride c cur betas actions violations report)
     \<longrightarrow> i \<notin> set (getOrderedReportIDs c cur allReports betas policies mode actions violations
                   pid members))
   \<and> (report \<in> set (presentReports allReports)
        \<and> Report.notificationPreference report = Some HIDDEN
        \<and> overridesHidden c cur betas actions violations report
        \<and> passesOtherFilters c cur betas policies (mode = Some GSD) actions violations
            (orElse pid []) (orElse members []) report
      \<longrightarrow> keptCopy c betas actions violations report
            \<in> set (reportsToDisplay c cur allReports betas policies (mode = Some GSD) actions
                 violations (orElse pid []) (orElse members []))
          \<and> reportIDOrSentinel report
            \<in> set (getOrderedReportIDs c cur allReports betas policies mode actions violations
                 pid members))
   \<and> (report \<in> set (presentReports allReports)
        \<and> truthyBool (Report.isPinned report)
        \<and> Report.notificationPreference report = Some HIDDEN
        \<and> \<not> strictEquals (Report.reportID report) cur
        \<and> passesOtherFilters c cur betas policies (mode = Some GSD) actions violations
            (orElse pid []) (orElse members []) report
      \<longrightarrow> toMiniReport c (keptCopy c betas actions violations report)
            \<in> set (pinnedAndGBRReports
                 (sortedBuckets c cur allReports betas policies mode actions violations pid
                    members)))"
proof -
  let ?k = "keptCopy c betas actions violations report"
  let ?shown = "reportsToDisplay c cur allReports betas policies (mode = Some GSD) actions
                  violations (orElse pid []) (orElse members [])"
  let ?out = "getOrderedReportIDs c cur allReports betas policies mode actions violations pid
                members"
  have excluded: "i \<notin> set ?out"
    if h: "\<forall>report \<in> set (presentReports allReports).
       reportIDOrSentinel report = i
         \<longrightarrow> hiddenWithoutOverride c cur betas actions violations report"
  proof
    assume "i \<in> set ?out"
    then obtain x where x1: "reportIDOrSentinel x = i" "x \<in> set ?shown"
      unfolding in_getOrderedReportIDs by blast
    from x1(2) obtain r where x2: "r \<in> set (presentReports allReports)"
      "x \<in> set (filterReport c cur betas policies (mode = Some GSD) actions violations [] (Some r))"
      unfolding in_reportsToDisplay by blast
    have "x = keptCopy c betas actions violations r" using x2(2) by (rule filterReport_kept)
    then have "reportIDOrSentinel r = i" using x1(1) by (simp add: reportID_keptCopy)
    then have "hiddenWithoutOverride c cur betas actions violations r" using h x2(1) by blast
    then have "filterReport c cur betas policies (mode = Some GSD) actions violations [] (Some r) = []"
      by (simp add: filterReport_Some hiddenWithoutOverride_def)
    with x2(2) show False by simp
  qed
  have shown: "?k \<in> set ?shown"
    if present: "report \<in> set (presentReports allReports)"
      and override: "overridesHidden c cur betas actions violations report"
      and passes: "passesOtherFilters c cur betas policies (mode = Some GSD) actions violations
            (orElse pid []) (orElse members []) report"
  proof -
    have kept: "?k \<in> set (filterReport c cur betas policies (mode = Some GSD) actions violations []
                            (Some report))"
      using override passes
      by (auto simp: filterReport_Some passesOtherFilters_def overridesHidden_def keptCopy_def)
    have ws: "(orElse pid [] = [] \<and> orElse members [] = [])
          \<or> strictEquals (Report.reportID ?k) cur
          \<or> doesReportBelongToWorkspace c ?k (orElse members []) (orElse pid [])"
      using passes by (auto simp: passesOtherFilters_def reportID_field_keptCopy)
    show ?thesis unfolding in_reportsToDisplay using present kept ws by blast
  qed
  have listed: "reportIDOrSentinel report \<in> set ?out" if "?k \<in> set ?shown"
    unfolding in_getOrderedReportIDs
    using that reportID_keptCopy [of c betas actions violations report] by blast
  have pinned: "toMiniReport c ?k \<in> set (pinnedAndGBRReports
      (sortedBuckets c cur allReports betas policies mode actions violations pid members))"
    if present: "report \<in> set (presentReports allReports)"
      and pin: "truthyBool (Report.isPinned report)"
      and passes: "passesOtherFilters c cur betas policies (mode = Some GSD) actions violations
            (orElse pid []) (orElse members []) report"
  proof -
    have "overridesHidden c cur betas actions violations report"
      using pin by (simp add: overridesHidden_def)
    then have s: "?k \<in> set ?shown" using present passes by (simp add: shown)
    have "specBucket c ?k = PinnedGBR"
      using pin by (simp add: specBucket_pinned isPinned_keptCopy)
    with s have "toMiniReport c ?k
        \<in> set (map (toMiniReport c) (filter (\<lambda>r. specBucket c r = PinnedGBR) ?shown))"
      by simp
    then have "toMiniReport c ?k \<in># mset (bucketContents
        (sortedBuckets c cur allReports betas policies mode actions violations pid members)
        PinnedGBR)"
      unfolding mset_sortedBuckets by (simp only: set_mset_mset)
    then show ?thesis by simp
  qed
  from excluded shown listed pinned show ?thesis by blast
qed

text \<open>
  On the collection of eight with report 9 focused, the hidden report 8 is left out and the
  pinned and hidden report 6 is in the pinned/GBR bucket; with report 8 focused, the hidden
  report 8 is kept; a hidden report with an error other than the failed receipt scan is
  kept although it has no type, and so is the hidden system chat.
\<close>

theorem hidden_reports_override_witness:
  "''8'' \<notin> set (getOrderedReportIDs (sampleCollaborators []) (Some ''9'') sampleReports None None
                  (Some DEFAULT) None None None None)
   \<and> pinnedHiddenSample \<in> set (presentReports sampleReports)
   \<and> Report.notificationPreference pinnedHiddenSample = Some HIDDEN
   \<and> toMiniReport (sampleCollaborators []) pinnedHiddenSample
       \<in> set (pinnedAndGBRReports
            (sortedBuckets (sampleCollaborators []) (Some ''9'') sampleReports None None
               (Some DEFAULT) None None None None))
   \<and> ''6'' \<in> set (getOrderedReportIDs (sampleCollaborators []) (Some ''9'') sampleReports None
                  None (Some DEFAULT) None None None None)
   \<and> hiddenSample \<in> set (presentReports sampleReports)
   \<and> Report.notificationPreference hiddenSample = Some HIDDEN
   \<and> ''8'' \<in> set (getOrderedReportIDs (sampleCollaborators []) (Some ''8'') sampleReports None
                  None (Some DEFAULT) None None None None)
   \<and> Report.notificationPreference hiddenErrorSample = Some HIDDEN
   \<and> ''5'' \<in> set (getOrderedReportIDs (sampleCollaborators []) None hiddenErrorReports None
                  None (Some DEFAULT) None None None None)
   \<and> Report.notificationPreference hiddenSystemSample = Some HIDDEN
   \<and> ''4'' \<in> set (getOrderedReportIDs (sampleCollaborators []) None hiddenErrorReports None
                  None (Some DEFAULT) None None None None)"
proof -
  have h1: "\<forall>report \<in> set (presentReports sampleReports).
       reportIDOrSentinel report = ''8''
         \<longrightarrow> hiddenWithoutOverride (sampleCollaborators []) (Some ''9'') None None None report"
    by (simp add: presentReports_def sampleReports_def objectValues_def sampleReport_def
        reportIDOrSentinel_def orElse_def hiddenWithoutOverride_def errorFlagOf_def
        hasErrorOtherThanFailedReceipt_def sampleCollaborators_def strictEquals_def
        truthyBool_def)
  have p1: "pinnedHiddenSample \<in> set (presentReports sampleReports)"
    by (simp add: presentReports_def sampleReports_def objectValues_def pinnedHiddenSample_def)
  have p2: "truthyBool (Report.isPinned pinnedHiddenSample)"
    "Report.notificationPreference pinnedHiddenSample = Some HIDDEN"
    "\<not> strictEquals (Report.reportID pinnedHiddenSample) (Some ''9'')"
    by (simp_all add: pinnedHiddenSample_def sampleReport_def truthyBool_def strictEquals_def)
  have p3: "overridesHidden (sampleCollaborators []) (Some ''9'') None None None pinnedHiddenSample"
    using p2(1) by (simp add: overridesHidden_def)
  have p4: "passesOtherFilters (sampleCollaborators []) (Some ''9'') None None
      (Some DEFAULT = Some GSD) None None (orElse None []) (orElse None []) pinnedHiddenSample"
    by (simp add: passesOtherFilters_def sampleCollaborators_def pinnedHiddenSample_def
        sampleReport_def orElse_def)
  have p5: "keptCopy (sampleCollaborators []) None None None pinnedHiddenSample = pinnedHiddenSample"
    by (simp add: keptCopy_def errorFlagOf_def hasErrorOtherThanFailedReceipt_def
        sampleCollaborators_def pinnedHiddenSample_def sampleReport_def orElse_def)
  have p6: "reportIDOrSentinel pinnedHiddenSample = ''6''"
    by (simp add: reportIDOrSentinel_def pinnedHiddenSample_def sampleReport_def orElse_def)
  have f1: "hiddenSample \<in> set (presentReports sampleReports)"
    by (simp add: presentReports_def sampleReports_def objectValues_def hiddenSample_def)
  have f2: "Report.notificationPreference hiddenSample = Some HIDDEN"
    by (simp add: hiddenSample_def sampleReport_def)
  have f3: "overridesHidden (sampleCollaborators []) (Some ''8'') None None None hiddenSample"
    by (simp add: overridesHidden_def hiddenSample_def sampleReport_def strictEquals_def)
  have f4: "passesOtherFilters (sampleCollaborators []) (Some ''8'') None None
      (Some DEFAULT = Some GSD) None None (orElse None []) (orElse None []) hiddenSample"
    by (simp add: passesOtherFilters_def sampleCollaborators_def hiddenSample_def
        sampleReport_def orElse_def)
  have f5: "reportIDOrSentinel hiddenSample = ''8''"
    by (simp add: reportIDOrSentinel_def hiddenSample_def sampleReport_def orElse_def)
  have e1: "hiddenErrorSample \<in> set (presentReports hiddenErrorReports)"
    by (simp add: presentReports_def hiddenErrorReports_def objectValues_def)
  have e2: "Report.notificationPreference hiddenErrorSample = Some HIDDEN"
    by (simp add: hiddenErrorSample_def sampleReport_def)
  have e3: "overridesHidden (sampleCollaborators []) None None None None hiddenErrorSample"
    by (simp add: overridesHidden_def errorFlagOf_def hasErrorOtherThanFailedReceipt_def
        hiddenErrorSample_def sampleReport_def sampleCollaborators_def orElse_def indexZero_def)
  have e4: "passesOtherFilters (sampleCollaborators []) None None None
      (Some DEFAULT = Some GSD) None None (orElse None []) (orElse None []) hiddenErrorSample"
    by (simp add: passesOtherFilters_def errorFlagOf_def hasErrorOtherThanFailedReceipt_def
        hiddenErrorSample_def sampleReport_def sampleCollaborators_def orElse_def indexZero_def)
  have e5: "reportIDOrSentinel hiddenErrorSample = ''5''"
    by (simp add: reportIDOrSentinel_def hiddenErrorSample_def sampleReport_def orElse_def)
  have s1: "hiddenSystemSample \<in> set (presentReports hiddenErrorReports)"
    by (simp add: presentReports_def hiddenErrorReports_def objectValues_def)
  have s2: "Report.notificationPreference hiddenSystemSample = Some HIDDEN"
    by (simp add: hiddenSystemSample_def sampleReport_def)
  have s3: "overridesHidden (sampleCollaborators []) None None None None hiddenSystemSample"
    by (simp add: overridesHidden_def hiddenSystemSample_def sampleReport_def
        sampleCollaborators_def)
  have s4: "passesOtherFilters (sampleCollaborators []) None None None
      (Some DEFAULT = Some GSD) None None (orElse None []) (orElse None []) hiddenSystemSample"
    by (simp add: passesOtherFilters_def hiddenSystemSample_def sampleReport_def
        sampleCollaborators_def orElse_def)
  have s5: "reportIDOrSentinel hiddenSystemSample = ''4''"
    by (simp add: reportIDOrSentinel_def hiddenSystemSample_def sampleReport_def orElse_def)
  have a: "''8'' \<notin> set (getOrderedReportIDs (sampleCollaborators []) (Some ''9'') sampleReports
                  None None (Some DEFAULT) None None None None)
      \<and> toMiniReport (sampleCollaborators []) pinnedHiddenSample
          \<in> set (pinnedAndGBRReports
               (sortedBuckets (sampleCollaborators []) (Some ''9'') sampleReports None None
                  (Some DEFAULT) None None None None))
      \<and> ''6'' \<in> set (getOrderedReportIDs (sampleCollaborators []) (Some ''9'') sampleReports None
                  None (Some DEFAULT) None None None None)"
    using hidden_reports_override [where allReports = sampleReports and i = "''8''"
        and c = "sampleCollaborators []" and cur = "Some ''9''" and betas = None
        and actions = None and violations = None and policies = None
        and mode = "Some DEFAULT" and pid = None and members = None
        and report = pinnedHiddenSample]
      h1 p1 p2 p3 p4 p5 p6
    by simp
  have b: "''8'' \<in> set (getOrderedReportIDs (sampleCollaborators []) (Some ''8'') sampleReports
                  None None (Some DEFAULT) None None None None)"
    using hidden_reports_override [where allReports = sampleReports and i = "''0''"
        and c = "sampleCollaborators []" and cur = "Some ''8''" and betas = None
        and actions = None and violations = None and policies = None
        and mode = "Some DEFAULT" and pid = None and members = None
        and report = hiddenSample]
      f1 f2 f3 f4 f5
    by simp
  have d: "''5'' \<in> set (getOrderedReportIDs (sampleCollaborators []) None hiddenErrorReports
                  None None (Some DEFAULT) None None None None)"
    using hidden_reports_override [where allReports = hiddenErrorReports and i = "''0''"
        and c = "sampleCollaborators []" and cur = None and betas = None
        and actions = None and violations = None and policies = None
        and mode = "Some DEFAULT" and pid = None and members = None
        and report = hiddenErrorSample]
      e1 e2 e3 e4 e5
    by simp
  have e: "''4'' \<in> set (getOrderedReportIDs (sampleCollaborators []) None hiddenErrorReports
                  None None (Some DEFAULT) None None None None)"
    using hidden_reports_override [where allReports = hiddenErrorReports and i = "''0''"
        and c = "sampleCollaborators []" and cur = None and betas = None
        and actions = None and violations = None and policies = None
        and mode = "Some DEFAULT" and pid = None and members = None
        and report = hiddenSystemSample]
      s1 s2 s3 s4 s5
    by simp
  from a b d e p1 p2(2) f1 f2 e2 s2 show ?thesis by simp
qed

subsection \<open>Tooltips\<close>

text \<open>
  C9. The tooltips of the result are what \<^verbatim>\<open>getDisplayNamesWithTooltips\<close> makes of the
  first ten entries of the participant list, whatever its length; they are at most ten,
  given that \<^verbatim>\<open>getDisplayNamesWithTooltips\<close> returns no more entries than it is given.
\<close>

theorem tooltips_at_most_ten:
  assumes "tooltipPerParticipant c"
    and "getOptionData c (Some report) reportActions (Some personalDetails) preferredLocale
           policy parentAction hasViolations = Some result"
    and "participantList = map snd (getPersonalDetailsForAccountIDs c
           (getParticipantsAccountIDsForDisplay c report None) personalDetails)"
  shows "displayNamesWithTooltips result
         = Some (getDisplayNamesWithTooltips c (take 10 participantList)
                   (length participantList > 1 \<or> isChatRoom c report
                    \<or> isPolicyExpenseChat c report \<or> isExpenseReport c report)
                   None (isSelfDM c report))
       \<and> length (orElse (displayNamesWithTooltips result) []) \<le> 10"
proof -
  let ?multi = "length participantList > 1 \<or> isChatRoom c report
                \<or> isPolicyExpenseChat c report \<or> isExpenseReport c report"
  have d: "displayNamesWithTooltips result
      = Some (getDisplayNamesWithTooltips c (take 10 participantList) ?multi None (isSelfDM c report))"
    using displayNamesWithTooltips_field [of c report reportActions personalDetails
        preferredLocale policy parentAction hasViolations] assms(2)
    unfolding assms(3) by simp
  have "length (getDisplayNamesWithTooltips c (take 10 participantList) ?multi None (isSelfDM c report))
      \<le> length (take 10 participantList)"
    using assms(1) unfolding tooltipPerParticipant_def by blast
  also have "\<dots> \<le> 10" by simp
  finally show ?thesis using d by (simp add: orElse_def)
qed

text \<open>Twelve participants, ten tooltips.\<close>

theorem tooltips_at_most_ten_witness:
  "length (participants crowdedReport) = 12
   \<and> length (orElse (displayNamesWithTooltips
        (the (getOptionData (sampleCollaborators []) (Some crowdedReport) None
           (Some samplePersonalDetails) ''en'' None None False))) []) = 10"
proof -
  obtain r where r: "getOptionData (sampleCollaborators []) (Some crowdedReport) None
      (Some samplePersonalDetails) ''en'' None None False = Some r"
    by (simp add: getOptionData_def Let_def)
  have h: "tooltipPerParticipant (sampleCollaborators [])"
    by (simp add: tooltipPerParticipant_def sampleCollaborators_def)
  have p: "length (participants crowdedReport) = 12"
    by (simp add: crowdedReport_def)
  from tooltips_at_most_ten [OF h r refl] r p
  show ?thesis
    by (simp add: sampleCollaborators_def crowdedReport_def sampleReport_def
        samplePersonalDetails_def orElse_def)
qed

subsection \<open>Unread reports\<close>

text \<open>
  C10. For a report that is not a join request in an admin room, the unread flag of the
  result is the unread predicate of the report together with a last actor that is set; so
  the flag is true only if the last actor is set.
\<close>

theorem isUnread_needs_last_actor:
  assumes "getOptionData c (Some report) reportActions (Some personalDetails) preferredLocale
             policy parentAction hasViolations = Some result"
    and "\<not> isJoinRequestInAdminRoom c report"
  shows "OptionData.isUnread result
         = Some (isUnread c report \<and> truthyNumber (lastActorAccountID report))
       \<and> (OptionData.isUnread result = Some True \<longrightarrow> truthyNumber (lastActorAccountID report))"
  using isUnread_field [of c report reportActions personalDetails preferredLocale policy
      parentAction hasViolations] assms
  by simp

text \<open>
  An unread report without last actor is not shown as unread; with a last actor it is.
\<close>

theorem isUnread_needs_last_actor_witness:
  "isUnread (sampleCollaborators []) unreadReport
   \<and> lastActorAccountID unreadReport = None
   \<and> OptionData.isUnread
       (the (getOptionData (sampleCollaborators []) (Some unreadReport) None
          (Some samplePersonalDetails) ''en'' None None False)) = Some False
   \<and> OptionData.isUnread
       (the (getOptionData (sampleCollaborators [])
          (Some (unreadReport\<lparr>lastActorAccountID := Some 7\<rparr>)) None
          (Some samplePersonalDetails) ''en'' None None False)) = Some True"
proof -
  obtain r1 where r1: "getOptionData (sampleCollaborators []) (Some unreadReport) None
      (Some samplePersonalDetails) ''en'' None None False = Some r1"
    by (simp add: getOptionData_def Let_def)
  obtain r2 where r2: "getOptionData (sampleCollaborators [])
      (Some (unreadReport\<lparr>lastActorAccountID := Some 7\<rparr>)) None
      (Some samplePersonalDetails) ''en'' None None False = Some r2"
    by (simp add: getOptionData_def Let_def)
  have j: "\<not> isJoinRequestInAdminRoom (sampleCollaborators []) x" for x
    by (simp add: sampleCollaborators_def)
  show ?thesis
    using isUnread_needs_last_actor [OF r1 j] isUnread_needs_last_actor [OF r2 j] r1 r2
    by (simp add: sampleCollaborators_def unreadReport_def sampleReport_def truthyNumber_def)
qed

end
